theory Spec2Isabelle
  imports Complex_Main "HOL-Library.Multiset"
begin

section \<open>Go values used by package models\<close>

subsection \<open>float64\<close>

text \<open>
  A \<open>float64\<close> is a finite number, one of the two infinities, or not-a-number.
  Finite results are computed exactly: the rounding of a finite result and its overflow
  to an infinity are not part of this model, and negative zero is identified with zero
  (so a non-zero number divided by zero takes the sign of the dividend).  Infinities
  and NaN arise as in IEEE 754 from division by zero and from operands that are already
  infinite or NaN.  Comparisons with NaN are false, as in Go.
\<close>

datatype float64 = Fin real | PInf | NInf | NaN

fun fneg :: "float64 \<Rightarrow> float64" where
  "fneg (Fin x) = Fin (- x)"
| "fneg PInf = NInf"
| "fneg NInf = PInf"
| "fneg NaN = NaN"

fun fadd :: "float64 \<Rightarrow> float64 \<Rightarrow> float64" where
  "fadd NaN _ = NaN"
| "fadd _ NaN = NaN"
| "fadd (Fin x) (Fin y) = Fin (x + y)"
| "fadd PInf NInf = NaN"
| "fadd NInf PInf = NaN"
| "fadd PInf _ = PInf"
| "fadd _ PInf = PInf"
| "fadd NInf _ = NInf"
| "fadd _ NInf = NInf"

definition fsub :: "float64 \<Rightarrow> float64 \<Rightarrow> float64" where
  "fsub a b = fadd a (fneg b)"

fun fmul :: "float64 \<Rightarrow> float64 \<Rightarrow> float64" where
  "fmul NaN _ = NaN"
| "fmul _ NaN = NaN"
| "fmul (Fin x) (Fin y) = Fin (x * y)"
| "fmul (Fin x) PInf = (if x = 0 then NaN else if 0 < x then PInf else NInf)"
| "fmul (Fin x) NInf = (if x = 0 then NaN else if 0 < x then NInf else PInf)"
| "fmul PInf (Fin y) = (if y = 0 then NaN else if 0 < y then PInf else NInf)"
| "fmul NInf (Fin y) = (if y = 0 then NaN else if 0 < y then NInf else PInf)"
| "fmul PInf PInf = PInf"
| "fmul PInf NInf = NInf"
| "fmul NInf PInf = NInf"
| "fmul NInf NInf = PInf"

fun fdiv :: "float64 \<Rightarrow> float64 \<Rightarrow> float64" where
  "fdiv NaN _ = NaN"
| "fdiv _ NaN = NaN"
| "fdiv (Fin x) (Fin y) =
     (if y = 0 then (if x = 0 then NaN else if 0 < x then PInf else NInf)
      else Fin (x / y))"
| "fdiv (Fin x) PInf = Fin 0"
| "fdiv (Fin x) NInf = Fin 0"
| "fdiv PInf (Fin y) = (if 0 \<le> y then PInf else NInf)"
| "fdiv NInf (Fin y) = (if 0 \<le> y then NInf else PInf)"
| "fdiv PInf _ = NaN"
| "fdiv NInf _ = NaN"

text \<open>The comparison operators \<open><\<close>, \<open><=\<close>, \<open>==\<close> of Go; \<open>a > b\<close> is \<open>flt b a\<close>.\<close>

fun flt :: "float64 \<Rightarrow> float64 \<Rightarrow> bool" where
  "flt NaN _ = False"
| "flt _ NaN = False"
| "flt (Fin x) (Fin y) = (x < y)"
| "flt _ NInf = False"
| "flt PInf _ = False"
| "flt NInf _ = True"
| "flt (Fin x) PInf = True"

fun feq :: "float64 \<Rightarrow> float64 \<Rightarrow> bool" where
  "feq NaN _ = False"
| "feq _ NaN = False"
| "feq a b = (a = b)"

definition fle :: "float64 \<Rightarrow> float64 \<Rightarrow> bool" where
  "fle a b = (flt a b \<or> feq a b)"

definition fgt :: "float64 \<Rightarrow> float64 \<Rightarrow> bool" where
  "fgt a b = flt b a"

definition fge :: "float64 \<Rightarrow> float64 \<Rightarrow> bool" where
  "fge a b = fle b a"

text \<open>\<open>float64(n)\<close> for an \<open>int\<close> that is a length or a count.\<close>

definition float64_of_nat :: "nat \<Rightarrow> float64" where
  "float64_of_nat n = Fin (real n)"

subsection \<open>Package math\<close>

definition math_IsNaN :: "float64 \<Rightarrow> bool" where
  "math_IsNaN f = (f = NaN)"

text \<open>\<open>math.IsInf(f, 0)\<close>: either infinity.\<close>

definition math_IsInf :: "float64 \<Rightarrow> bool" where
  "math_IsInf f = (f = PInf \<or> f = NInf)"

fun math_Abs :: "float64 \<Rightarrow> float64" where
  "math_Abs (Fin x) = Fin \<bar>x\<bar>"
| "math_Abs PInf = PInf"
| "math_Abs NInf = PInf"
| "math_Abs NaN = NaN"

fun math_Sqrt :: "float64 \<Rightarrow> float64" where
  "math_Sqrt (Fin x) = (if x < 0 then NaN else Fin (sqrt x))"
| "math_Sqrt PInf = PInf"
| "math_Sqrt NInf = NaN"
| "math_Sqrt NaN = NaN"

text \<open>\<open>math.Pow(x, 2)\<close>, the only use of \<open>math.Pow\<close> in the package.\<close>

fun math_Pow_2 :: "float64 \<Rightarrow> float64" where
  "math_Pow_2 (Fin x) = Fin (x * x)"
| "math_Pow_2 PInf = PInf"
| "math_Pow_2 NInf = PInf"
| "math_Pow_2 NaN = NaN"

text \<open>
  \<open>math.Max\<close> and \<open>math.Min\<close> test for the dominating infinity first and for NaN
  second: \<open>Max(x, +Inf) = +Inf\<close>, \<open>Max(x, NaN) = NaN\<close>.
\<close>

definition math_Max :: "float64 \<Rightarrow> float64 \<Rightarrow> float64" where
  "math_Max x y =
     (if x = PInf \<or> y = PInf then PInf
      else if x = NaN \<or> y = NaN then NaN
      else if flt y x then x else y)"

definition math_Min :: "float64 \<Rightarrow> float64 \<Rightarrow> float64" where
  "math_Min x y =
     (if x = NInf \<or> y = NInf then NInf
      else if x = NaN \<or> y = NaN then NaN
      else if flt x y then x else y)"


subsection \<open>Errors and panics\<close>

text \<open>
  An \<open>error\<close> returned by a query is a message.  A call \<open>f(...)\<close> that returns
  \<open>(v, err)\<close> is a value of \<open>go_error + 'a\<close>, with \<open>Inl\<close> for \<open>err != nil\<close>.
  Reading a field through a nil pointer panics; a panic in a goroutine ends the process,
  so a function that may panic returns \<open>panic + 'a\<close>.
\<close>

type_synonym go_error = string

datatype panic = NilPointerDereference

text \<open>An \<open>interface{}\<close> decoded from JSON, as far as \<open>GetPrice\<close> tells its cases apart.\<close>

datatype go_any = AnyFloat64 float64 | AnyString string | AnyNil

section \<open>Data of packages eastmoney and eniu\<close>

text \<open>
  The struct types of the data providers are declared outside package \<open>models\<close>.
  Each record below has the fields that package \<open>models\<close> reads, under the names it
  reads them by.  Rows and structs that \<open>NewStock\<close> only stores are the type
  parameters \<open>'row\<close> and \<open>'sec\<close>; the zero value of a stored struct is written \<open>0\<close>.
\<close>

datatype FinaReportType =
  FinaReportTypeQ1 | FinaReportTypeMid | FinaReportTypeQ3 | FinaReportTypeYear

datatype ValueListType = ValueListTypeEPS | ValueListTypeROE | ValueListTypeNetProfit

record StockInfo =
  SecurityNameAbbr :: string
  Secucode :: string
  SecurityCode :: string
  Industry :: string
  NewPrice :: go_any
  RoeWeight :: float64
  PE :: float64
  NetprofitGrowthrate3Y :: float64

record FinaMainData =
  ReportDate :: string
  ReportYear :: int
  ReportType :: FinaReportType
  OrgType :: string
  Epsjb :: float64
  Roejq :: float64
  Parentnetprofit :: float64
  Zcfzl :: float64

record RespHistoricalStockPrice =
  Date :: "string list"
  Price :: "float64 list"

record FinaPublishDate =
  AppointPublishDate :: string
  ActualPublishDate :: string
  ReportDate :: string

record GincomeData =
  OperateProfit :: float64
  NonbusinessIncome :: float64
  OpinionType :: string

record CashflowData =
  NetcashOperate :: float64
  NetcashInvest :: float64
  NetcashFinance :: float64

text \<open>
  Modelled from the spec: \<open>HistoricalFinaMainData.ValueList\<close> is not among the source
  files.  The history is ordered newest first, and the callers ask for the values of the
  \<open>n\<close> (its argument \<open>count\<close>) most recent reports of one type ("the three most recent annual EPS values",
  "at least 5 years of return-on-equity data"); with fewer reports of that type it returns
  fewer values.
\<close>

fun value_of :: "ValueListType \<Rightarrow> FinaMainData \<Rightarrow> float64" where
  "value_of ValueListTypeEPS r = Epsjb r"
| "value_of ValueListTypeROE r = Roejq r"
| "value_of ValueListTypeNetProfit r = Parentnetprofit r"

definition ValueList ::
  "FinaMainData list \<Rightarrow> ValueListType \<Rightarrow> nat \<Rightarrow> FinaReportType \<Rightarrow> float64 list" where
  "ValueList h vt n rt = map (value_of vt) (take n (filter (\<lambda>r. ReportType r = rt) h))"

text \<open>
  Modelled from the spec: \<open>HistoricalFinaMainData.GetReport\<close> is not among the source
  files.  It resolves the report of a given year and type; \<open>NewStock\<close> compares its
  result with \<open>nil\<close>, so a missing report is \<open>None\<close>.
\<close>

definition GetReport ::
  "FinaMainData list \<Rightarrow> int \<Rightarrow> FinaReportType \<Rightarrow> FinaMainData option" where
  "GetReport h year rt = find (\<lambda>r. ReportYear r = year \<and> ReportType r = rt) h"

section \<open>Package models: the stock\<close>

record BuffettScore =
  ROEScore :: float64
  CashFlowScore :: float64
  ProfitGrowthScore :: float64
  DebtRatioScore :: float64
  MoatScore :: float64
  ManagementScore :: float64
  ValuationScore :: float64
  TotalScore :: float64
  RDScore :: float64
  DividendScore :: float64
  RepurchaseScore :: float64

text \<open>
  \<open>ScoreDescription\<close>, the text that \<open>fmt.Sprintf\<close> renders from the same numbers, is
  left out, and so is logging: neither is read again.
\<close>

record ('row, 'sec) Stock =
  BaseInfo :: StockInfo
  HistoricalFinaMainData :: "FinaMainData list"
  ValuationMap :: "string \<rightharpoonup> string"
  HistoricalPEList :: "'row list"
  RightPrice :: float64
  PriceSpace :: float64
  LastYearRightPrice :: float64
  HistoricalPrice :: RespHistoricalStockPrice
  HistoricalVolatility :: float64
  CompanyProfile :: 'sec
  FinaAppointPublishDate :: string
  FinaActualPublishDate :: string
  FinaReportDate :: string
  OrgRatingList :: "'row list"
  ProfitPredictList :: "'row list"
  JZPG :: 'sec
  PEG :: float64
  HistoricalGincomeList :: "GincomeData list"
  BYYSRatio :: float64
  FinaReportOpinion :: string
  HistoricalCashflowList :: "CashflowData list"
  NetcashOperate :: float64
  NetcashInvest :: float64
  NetcashFinance :: float64
  NetcashFree :: float64
  FreeHoldersTop10 :: "'row list"
  MainMoneyNetInflows :: "'row list"
  BuffettScore :: BuffettScore

definition BuffettScore_zero :: BuffettScore where
  "BuffettScore_zero =
     \<lparr>ROEScore = Fin 0, CashFlowScore = Fin 0, ProfitGrowthScore = Fin 0,
      DebtRatioScore = Fin 0, MoatScore = Fin 0, ManagementScore = Fin 0,
      ValuationScore = Fin 0, TotalScore = Fin 0, RDScore = Fin 0,
      DividendScore = Fin 0, RepurchaseScore = Fin 0\<rparr>"

text \<open>The composite literal \<open>Stock{BaseInfo: baseInfo}\<close>: every other field is zero.\<close>

definition Stock_literal :: "StockInfo \<Rightarrow> ('row, 'sec::zero) Stock" where
  "Stock_literal baseInfo =
     \<lparr>BaseInfo = baseInfo, HistoricalFinaMainData = [], ValuationMap = Map.empty,
      HistoricalPEList = [], RightPrice = Fin 0, PriceSpace = Fin 0,
      LastYearRightPrice = Fin 0,
      HistoricalPrice = \<lparr>Date = [], Price = []\<rparr>, HistoricalVolatility = Fin 0,
      CompanyProfile = 0, FinaAppointPublishDate = [], FinaActualPublishDate = [],
      FinaReportDate = [], OrgRatingList = [], ProfitPredictList = [], JZPG = 0,
      PEG = Fin 0, HistoricalGincomeList = [], BYYSRatio = Fin 0, FinaReportOpinion = [],
      HistoricalCashflowList = [], NetcashOperate = Fin 0, NetcashInvest = Fin 0,
      NetcashFinance = Fin 0, NetcashFree = Fin 0, FreeHoldersTop10 = [],
      MainMoneyNetInflows = [], BuffettScore = BuffettScore_zero\<rparr>"

definition GetPrice :: "('row, 'sec) Stock \<Rightarrow> float64" where
  "GetPrice s =
     (case NewPrice (BaseInfo s) of
        AnyFloat64 p \<Rightarrow> p
      | _ \<Rightarrow> (if length (Price (HistoricalPrice s)) = 0 then Fin (- 1)
              else last (Price (HistoricalPrice s))))"

definition GetOrgType :: "('row, 'sec) Stock \<Rightarrow> string" where
  "GetOrgType s =
     (case HistoricalFinaMainData s of [] \<Rightarrow> [] | r # _ \<Rightarrow> OrgType r)"


section \<open>The scoring pipeline\<close>

text \<open>
  Each \<open>calculate...Score\<close> has a pointer receiver and writes one field of
  \<open>s.BuffettScore\<close>; the model returns the stock with that field written.
\<close>

text \<open>The loop \<open>for _, x := range xs { sum += x }\<close> over a sum that starts at zero.\<close>

definition sum_float64 :: "float64 list \<Rightarrow> float64" where
  "sum_float64 xs = foldl fadd (Fin 0) xs"

definition calculateROEScore :: "('row, 'sec) Stock \<Rightarrow> ('row, 'sec) Stock" where
  "calculateROEScore s =
     (let roeList = ValueList (HistoricalFinaMainData s) ValueListTypeROE 5 FinaReportTypeYear
      in if length roeList = 0 then s\<lparr>BuffettScore := (BuffettScore s)\<lparr>ROEScore := Fin 0\<rparr>\<rparr>
         else if length roeList < 5 then s\<lparr>BuffettScore := (BuffettScore s)\<lparr>ROEScore := Fin 0\<rparr>\<rparr>
         else
           let sumROE = sum_float64 roeList;
               avgROE = fdiv sumROE (float64_of_nat (length roeList));
               variance = foldl (\<lambda>v roe. fadd v (math_Pow_2 (fsub roe avgROE))) (Fin 0) roeList;
               volatility = fdiv (math_Sqrt (fdiv variance (float64_of_nat (length roeList)))) avgROE;
               score = (if fge avgROE (Fin 20) then Fin 20
                        else if fge avgROE (Fin 15) then Fin 15
                        else fmul (fdiv avgROE (Fin 15)) (Fin 15));
               score = (if fgt volatility (Fin 0.3) then fmul score (Fin 0.8) else score)
           in s\<lparr>BuffettScore := (BuffettScore s)\<lparr>ROEScore := score\<rparr>\<rparr>)"

definition calculateCashFlowScore :: "('row, 'sec) Stock \<Rightarrow> ('row, 'sec) Stock" where
  "calculateCashFlowScore s =
     (if length (HistoricalCashflowList s) < 3
      then s\<lparr>BuffettScore := (BuffettScore s)\<lparr>CashFlowScore := Fin 0\<rparr>\<rparr>
      else
        let positiveCount =
              length (filter (\<lambda>cf. fgt (CashflowData.NetcashOperate cf) (Fin 0))
                        (take 3 (HistoricalCashflowList s)));
            score = (if positiveCount = 3 then Fin 15
                     else if positiveCount = 2 then Fin 10
                     else if positiveCount = 1 then Fin 5
                     else Fin 0)
        in s\<lparr>BuffettScore := (BuffettScore s)\<lparr>CashFlowScore := score\<rparr>\<rparr>)"

text \<open>
  One round of the loop \<open>for i := 0; i < len(profitList)-1; i++\<close>, on the pair
  \<open>(growthCount, volatilitySum)\<close>.
\<close>

definition profitGrowth_step :: "float64 list \<Rightarrow> nat \<times> float64 \<Rightarrow> nat \<Rightarrow> nat \<times> float64" where
  "profitGrowth_step profitList acc i =
     (let growthCount = (if fgt (profitList ! i) (profitList ! (i + 1))
                         then fst acc + 1 else fst acc);
          volatilitySum =
            (if 0 < i then
               let growth1 = fdiv (fsub (profitList ! i) (profitList ! (i + 1)))
                                  (math_Abs (profitList ! (i + 1)));
                   growth2 = fdiv (fsub (profitList ! (i - 1)) (profitList ! i))
                                  (math_Abs (profitList ! i))
               in fadd (snd acc) (math_Abs (fsub growth1 growth2))
             else snd acc)
      in (growthCount, volatilitySum))"

definition calculateProfitGrowthScore :: "('row, 'sec) Stock \<Rightarrow> ('row, 'sec) Stock" where
  "calculateProfitGrowthScore s =
     (if length (HistoricalFinaMainData s) < 5
      then s\<lparr>BuffettScore := (BuffettScore s)\<lparr>ProfitGrowthScore := Fin 0\<rparr>\<rparr>
      else
        let profitList =
              ValueList (HistoricalFinaMainData s) ValueListTypeNetProfit 5 FinaReportTypeYear
        in if length profitList < 5
           then s\<lparr>BuffettScore := (BuffettScore s)\<lparr>ProfitGrowthScore := Fin 0\<rparr>\<rparr>
           else
             let acc = foldl (profitGrowth_step profitList) (0, Fin 0)
                         [0 ..< length profitList - 1];
                 score = fmul (float64_of_nat (fst acc)) (Fin 3);
                 score = (if fgt (snd acc) (Fin 0.5) then fmul score (Fin 0.8) else score)
             in s\<lparr>BuffettScore := (BuffettScore s)\<lparr>ProfitGrowthScore := score\<rparr>\<rparr>)"

definition calculateDebtRatioScore :: "('row, 'sec) Stock \<Rightarrow> ('row, 'sec) Stock" where
  "calculateDebtRatioScore s =
     (case HistoricalFinaMainData s of
        [] \<Rightarrow> s\<lparr>BuffettScore := (BuffettScore s)\<lparr>DebtRatioScore := Fin 0\<rparr>\<rparr>
      | r # _ \<Rightarrow>
          let debtRatio = Zcfzl r;
              score = (if flt debtRatio (Fin 30) then Fin 10
                       else if flt debtRatio (Fin 50) then Fin 8
                       else if flt debtRatio (Fin 70) then Fin 5
                       else Fin 0)
          in s\<lparr>BuffettScore := (BuffettScore s)\<lparr>DebtRatioScore := score\<rparr>\<rparr>)"

definition calculateValuationScore :: "('row, 'sec) Stock \<Rightarrow> ('row, 'sec) Stock" where
  "calculateValuationScore s =
     (let score = (if flt (PE (BaseInfo s)) (Fin 10) then Fin 15
                   else if flt (PE (BaseInfo s)) (Fin 15) then Fin 12
                   else if flt (PE (BaseInfo s)) (Fin 20) then Fin 8
                   else if flt (PE (BaseInfo s)) (Fin 30) then Fin 5
                   else Fin 0);
          score = (if fgt (PEG s) (Fin 0) \<and> flt (PEG s) (Fin 1)
                   then math_Max score (Fin 15) else score)
      in s\<lparr>BuffettScore := (BuffettScore s)\<lparr>ValuationScore := score\<rparr>\<rparr>)"

text \<open>
  The industry names of the \<open>switch\<close> in \<open>calculateMoatScore\<close>, as the UTF-8 bytes of
  the Go string literals: food and beverage, pharmaceuticals and biotech, household
  appliances, banking, insurance; construction, mining, agriculture forestry husbandry
  and fishing.
\<close>

definition strong_moat_industries :: "string list" where
  "strong_moat_industries =
     [[CHR 0xE9, CHR 0xA3, CHR 0x9F, CHR 0xE5, CHR 0x93, CHR 0x81,
       CHR 0xE9, CHR 0xA5, CHR 0xAE, CHR 0xE6, CHR 0x96, CHR 0x99],
      [CHR 0xE5, CHR 0x8C, CHR 0xBB, CHR 0xE8, CHR 0x8D, CHR 0xAF,
       CHR 0xE7, CHR 0x94, CHR 0x9F, CHR 0xE7, CHR 0x89, CHR 0xA9],
      [CHR 0xE5, CHR 0xAE, CHR 0xB6, CHR 0xE7, CHR 0x94, CHR 0xA8,
       CHR 0xE7, CHR 0x94, CHR 0xB5, CHR 0xE5, CHR 0x99, CHR 0xA8],
      [CHR 0xE9, CHR 0x93, CHR 0xB6, CHR 0xE8, CHR 0xA1, CHR 0x8C],
      [CHR 0xE4, CHR 0xBF, CHR 0x9D, CHR 0xE9, CHR 0x99, CHR 0xA9]]"

definition weak_moat_industries :: "string list" where
  "weak_moat_industries =
     [[CHR 0xE5, CHR 0xBB, CHR 0xBA, CHR 0xE7, CHR 0xAD, CHR 0x91],
      [CHR 0xE9, CHR 0x87, CHR 0x87, CHR 0xE6, CHR 0x8E, CHR 0x98],
      [CHR 0xE5, CHR 0x86, CHR 0x9C, CHR 0xE6, CHR 0x9E, CHR 0x97,
       CHR 0xE7, CHR 0x89, CHR 0xA7, CHR 0xE6, CHR 0xB8, CHR 0x94]]"

definition calculateMoatScore :: "('row, 'sec) Stock \<Rightarrow> ('row, 'sec) Stock" where
  "calculateMoatScore s =
     (let industry = Industry (BaseInfo s);
          score = (if industry \<in> set strong_moat_industries then Fin 8
                   else if industry \<in> set weak_moat_industries then Fin 3
                   else Fin 5)
      in s\<lparr>BuffettScore := (BuffettScore s)\<lparr>MoatScore := math_Min (Fin 10) score\<rparr>\<rparr>)"

text \<open>
  \<open>calculateManagementScore\<close> assigns \<open>score\<close> three times: \<open>5.0\<close>, then \<open>7.5\<close>
  under the test on the length of the history, then \<open>7.5\<close> with no test.
\<close>

definition calculateManagementScore :: "('row, 'sec) Stock \<Rightarrow> ('row, 'sec) Stock" where
  "calculateManagementScore s =
     (let score = Fin 5.0;
          score = (if 3 \<le> length (HistoricalFinaMainData s) then Fin 7.5 else score);
          score = Fin 7.5
      in s\<lparr>BuffettScore := (BuffettScore s)\<lparr>ManagementScore := math_Min (Fin 10) score\<rparr>\<rparr>)"

definition calculateRDScore :: "('row, 'sec) Stock \<Rightarrow> ('row, 'sec) Stock" where
  "calculateRDScore s = s\<lparr>BuffettScore := (BuffettScore s)\<lparr>RDScore := Fin 5.0\<rparr>\<rparr>"

definition calculateDividendScore :: "('row, 'sec) Stock \<Rightarrow> ('row, 'sec) Stock" where
  "calculateDividendScore s = s\<lparr>BuffettScore := (BuffettScore s)\<lparr>DividendScore := Fin 5.0\<rparr>\<rparr>"

definition calculateRepurchaseScore :: "('row, 'sec) Stock \<Rightarrow> ('row, 'sec) Stock" where
  "calculateRepurchaseScore s =
     s\<lparr>BuffettScore := (BuffettScore s)\<lparr>RepurchaseScore := Fin 5.0\<rparr>\<rparr>"

text \<open>The sum \<open>totalScore\<close>, added from left to right as Go does.\<close>

definition totalScore :: "BuffettScore \<Rightarrow> float64" where
  "totalScore b =
     fadd (fadd (fadd (fadd (fadd (fadd (fadd (fadd (fadd
       (ROEScore b) (CashFlowScore b)) (ProfitGrowthScore b)) (DebtRatioScore b))
       (MoatScore b)) (ManagementScore b)) (ValuationScore b)) (RDScore b))
       (DividendScore b)) (RepurchaseScore b)"

text \<open>
  \<open>calculateBuffettScore\<close> returns \<open>s.BuffettScore\<close> after writing it through the
  receiver; the model returns the stock, whose \<open>BuffettScore\<close> is that result.
\<close>

definition calculateBuffettScore :: "('row, 'sec) Stock \<Rightarrow> ('row, 'sec) Stock" where
  "calculateBuffettScore s0 =
     (let s = calculateROEScore s0;
          s = calculateCashFlowScore s;
          s = calculateProfitGrowthScore s;
          s = calculateDebtRatioScore s;
          s = calculateMoatScore s;
          s = calculateManagementScore s;
          s = calculateValuationScore s;
          s = calculateRDScore s;
          s = calculateDividendScore s;
          s = calculateRepurchaseScore s
      in s\<lparr>BuffettScore := (BuffettScore s)\<lparr>TotalScore := totalScore (BuffettScore s)\<rparr>\<rparr>)"


section \<open>The aggregation: NewStock\<close>

text \<open>
  What \<open>NewStock\<close> reads from outside the package, for one call: the year of
  \<open>time.Now()\<close>, the answer of each query of \<open>datacenter\<close> for a security code,
  and three methods of the fetched data whose source is not at hand and whose results
  \<open>NewStock\<close> only passes on (the average revenue growth of a year, the median of
  the PE history, and \<open>HistoricalVolatility(ctx, "YEAR")\<close> of the price history).
\<close>

record ('row, 'sec) datacenter =
  Now_Year :: int
  QueryHistoricalFinaMainData :: "string \<Rightarrow> go_error + FinaMainData list"
  QueryHistoricalPEList :: "string \<Rightarrow> go_error + 'row list"
  QueryValuationStatus :: "string \<Rightarrow> go_error + (string \<rightharpoonup> string)"
  QueryHistoricalStockPrice :: "string \<Rightarrow> go_error + RespHistoricalStockPrice"
  QueryCompanyProfile :: "string \<Rightarrow> go_error + 'sec"
  QueryFinaPublishDateList :: "string \<Rightarrow> go_error + FinaPublishDate list"
  QueryOrgRating :: "string \<Rightarrow> go_error + 'row list"
  QueryProfitPredict :: "string \<Rightarrow> go_error + 'row list"
  QueryJiaZhiPingGu :: "string \<Rightarrow> go_error + 'sec"
  QueryFinaGincomeData :: "string \<Rightarrow> go_error + GincomeData list"
  QueryFinaCashflowData :: "string \<Rightarrow> go_error + CashflowData list"
  QueryFreeHolders :: "string \<Rightarrow> go_error + 'row list"
  QueryMainMoneyNetInflows :: "string \<Rightarrow> go_error + 'row list"
  GetAvgRevenueIncreasingRatioByYear :: "FinaMainData list \<Rightarrow> int \<Rightarrow> float64"
  GetMidValue :: "'row list \<Rightarrow> go_error + float64"
  HistoricalVolatility_YEAR :: "RespHistoricalStockPrice \<Rightarrow> go_error + float64"

subsection \<open>PEG\<close>

definition computePEG :: "StockInfo \<Rightarrow> float64" where
  "computePEG b =
     (if feq (NetprofitGrowthrate3Y b) (Fin 0) then Fin (- 1)
      else if flt (NetprofitGrowthrate3Y b) (Fin 0) then Fin (- 1)
      else
        let peg = fdiv (PE b) (NetprofitGrowthrate3Y b)
        in if math_IsNaN peg \<or> math_IsInf peg then Fin (- 1) else peg)"

subsection \<open>The reasonable price\<close>

text \<open>The field read \<open>report.Epsjb\<close> through a pointer that may be nil.\<close>

definition deref_Epsjb :: "FinaMainData option \<Rightarrow> panic + float64" where
  "deref_Epsjb report =
     (case report of None \<Rightarrow> Inl NilPointerDereference | Some r \<Rightarrow> Inr (Epsjb r))"

definition baseEPS_of :: "float64 list \<Rightarrow> FinaMainData option \<Rightarrow> panic + float64" where
  "baseEPS_of epsHistory lastYearReport =
     (if 3 \<le> length epsHistory
      then Inr (fdiv (sum_float64 epsHistory) (float64_of_nat (length epsHistory)))
      else deref_Epsjb lastYearReport)"

definition maxGrowthRate :: float64 where
  "maxGrowthRate = Fin 50.0"

definition adjustedGrowthRatio_of :: "float64 \<Rightarrow> float64" where
  "adjustedGrowthRatio_of ratio = (if fgt ratio maxGrowthRate then maxGrowthRate else ratio)"

definition explosiveGrowthAdjustment_of :: "float64 list \<Rightarrow> float64" where
  "explosiveGrowthAdjustment_of epsHistory =
     (if 2 \<le> length epsHistory then
        let lastYearGrowth =
              fmul (fdiv (fsub (epsHistory ! 0) (epsHistory ! 1)) (epsHistory ! 1)) (Fin 100)
        in if fgt lastYearGrowth (Fin 100) then Fin 0.7 else Fin 1.0
      else Fin 1.0)"

definition lastYearBaseEPS_of :: "float64 list \<Rightarrow> FinaMainData option \<Rightarrow> panic + float64" where
  "lastYearBaseEPS_of epsHistory beforeLastYearReport =
     (if 3 \<le> length epsHistory
      then Inr (fdiv (fadd (epsHistory ! 1) (epsHistory ! 2)) (Fin 2.0))
      else deref_Epsjb beforeLastYearReport)"

text \<open>
  The right-hand sides of the assignments to \<open>s.RightPrice\<close>, \<open>s.PriceSpace\<close> and
  \<open>s.LastYearRightPrice\<close>, and the test of step 6.
\<close>

definition rightPrice_of :: "float64 \<Rightarrow> float64 \<Rightarrow> float64 \<Rightarrow> float64 \<Rightarrow> float64" where
  "rightPrice_of peMidVal baseEPS adjustedGrowthRatio explosiveGrowthAdjustment =
     fmul (fmul peMidVal (fmul baseEPS (fadd (Fin 1) (fdiv adjustedGrowthRatio (Fin 100.0)))))
          explosiveGrowthAdjustment"

definition priceSpace_of :: "float64 \<Rightarrow> float64 \<Rightarrow> float64" where
  "priceSpace_of rightPrice price = fmul (fdiv (fsub rightPrice price) price) (Fin 100)"

definition lastYearRightPrice_of :: "float64 \<Rightarrow> float64 \<Rightarrow> float64 \<Rightarrow> float64" where
  "lastYearRightPrice_of peMidVal lastYearBaseEPS lastYearAdjustedGrowthRatio =
     fmul peMidVal
       (fmul lastYearBaseEPS (fadd (Fin 1) (fdiv lastYearAdjustedGrowthRatio (Fin 100.0))))"

definition invalid_RightPrice :: "float64 \<Rightarrow> bool" where
  "invalid_RightPrice rightPrice =
     (math_IsNaN rightPrice \<or> math_IsInf rightPrice \<or> fle rightPrice (Fin 0))"

text \<open>
  Steps 1 to 6 of the first goroutine, from \<open>epsHistory := ...\<close> to its end, given the
  median, the two reports and the two growth ratios resolved before.
\<close>

definition rightPrice_steps ::
  "float64 \<Rightarrow> float64 list \<Rightarrow> FinaMainData option \<Rightarrow> FinaMainData option \<Rightarrow>
   float64 \<Rightarrow> float64 \<Rightarrow> float64 \<Rightarrow> ('row, 'sec) Stock \<Rightarrow> panic + ('row, 'sec) Stock" where
  "rightPrice_steps peMidVal epsHistory lastYearReport beforeLastYearReport
       thisYearAvgRevIncrRatio lastYearAvgRevIncrRatio price s =
     (case baseEPS_of epsHistory lastYearReport of
        Inl p \<Rightarrow> Inl p
      | Inr baseEPS \<Rightarrow>
          let adjustedGrowthRatio = adjustedGrowthRatio_of thisYearAvgRevIncrRatio;
              explosiveGrowthAdjustment = explosiveGrowthAdjustment_of epsHistory;
              s = s\<lparr>RightPrice :=
                     rightPrice_of peMidVal baseEPS adjustedGrowthRatio explosiveGrowthAdjustment\<rparr>;
              s = s\<lparr>PriceSpace := priceSpace_of (RightPrice s) price\<rparr>
          in (case lastYearBaseEPS_of epsHistory beforeLastYearReport of
                Inl p \<Rightarrow> Inl p
              | Inr lastYearBaseEPS \<Rightarrow>
                  let lastYearAdjustedGrowthRatio = adjustedGrowthRatio_of lastYearAvgRevIncrRatio;
                      s = s\<lparr>LastYearRightPrice :=
                             lastYearRightPrice_of peMidVal lastYearBaseEPS
                               lastYearAdjustedGrowthRatio\<rparr>
                  in if invalid_RightPrice (RightPrice s)
                     then (case deref_Epsjb lastYearReport of
                             Inl p \<Rightarrow> Inl p
                           | Inr eps \<Rightarrow>
                               let s = s\<lparr>RightPrice := fmul peMidVal eps\<rparr>
                               in Inr (s\<lparr>PriceSpace := priceSpace_of (RightPrice s) price\<rparr>))
                     else Inr s))"

text \<open>
  The reports and growth ratios of the valuation, after the shift of one year that
  \<open>NewStock\<close> makes when last year's annual report is missing:
  \<open>(lastYearReport, beforeLastYearReport, thisYearAvgRevIncrRatio, lastYearAvgRevIncrRatio)\<close>.
\<close>

definition resolve_reports ::
  "('row, 'sec) datacenter \<Rightarrow> FinaMainData list \<Rightarrow>
   FinaMainData option \<times> FinaMainData option \<times> float64 \<times> float64" where
  "resolve_reports dc hf =
     (let thisYear = Now_Year dc;
          lastYearReport = GetReport hf (thisYear - 1) FinaReportTypeYear;
          beforeLastYearReport = GetReport hf (thisYear - 2) FinaReportTypeYear
      in if lastYearReport = None
         then (beforeLastYearReport,
               GetReport hf (thisYear - 3) FinaReportTypeYear,
               GetAvgRevenueIncreasingRatioByYear dc hf (thisYear - 1),
               GetAvgRevenueIncreasingRatioByYear dc hf (thisYear - 2))
         else (lastYearReport,
               beforeLastYearReport,
               GetAvgRevenueIncreasingRatioByYear dc hf thisYear,
               GetAvgRevenueIncreasingRatioByYear dc hf (thisYear - 1)))"

subsection \<open>The twelve goroutines\<close>

text \<open>
  Each goroutine writes fields of \<open>s\<close> that no other goroutine reads or writes, and
  \<open>wg.Wait()\<close> joins them all, so their effect is that of running them one after the
  other in the order of the source.  Only the first one can panic.
\<close>

definition go_HistoricalFinaMainData ::
  "('row, 'sec) datacenter \<Rightarrow> float64 \<Rightarrow> ('row, 'sec) Stock \<Rightarrow> panic + ('row, 'sec) Stock" where
  "go_HistoricalFinaMainData dc price s =
     (case QueryHistoricalFinaMainData dc (Secucode (BaseInfo s)) of
        Inl err \<Rightarrow> Inr s
      | Inr hf \<Rightarrow>
          if length hf = 0 then Inr s
          else
            let s = s\<lparr>HistoricalFinaMainData := hf\<rparr>
            in (case QueryHistoricalPEList dc (Secucode (BaseInfo s)) of
                  Inl err \<Rightarrow> Inr s
                | Inr peList \<Rightarrow>
                    let s = s\<lparr>HistoricalPEList := peList\<rparr>;
                        (lastYearReport, beforeLastYearReport,
                         thisYearAvgRevIncrRatio, lastYearAvgRevIncrRatio) =
                           resolve_reports dc (HistoricalFinaMainData s)
                    in (case GetMidValue dc peList of
                          Inl err \<Rightarrow> Inr s
                        | Inr peMidVal \<Rightarrow>
                            rightPrice_steps peMidVal
                              (ValueList (HistoricalFinaMainData s) ValueListTypeEPS 3
                                 FinaReportTypeYear)
                              lastYearReport beforeLastYearReport
                              thisYearAvgRevIncrRatio lastYearAvgRevIncrRatio price s)))"

definition go_ValuationStatus ::
  "('row, 'sec) datacenter \<Rightarrow> ('row, 'sec) Stock \<Rightarrow> ('row, 'sec) Stock" where
  "go_ValuationStatus dc s =
     (case QueryValuationStatus dc (Secucode (BaseInfo s)) of
        Inl err \<Rightarrow> s
      | Inr valMap \<Rightarrow> s\<lparr>ValuationMap := valMap\<rparr>)"

definition go_HistoricalStockPrice ::
  "('row, 'sec) datacenter \<Rightarrow> ('row, 'sec) Stock \<Rightarrow> ('row, 'sec) Stock" where
  "go_HistoricalStockPrice dc s =
     (case QueryHistoricalStockPrice dc (Secucode (BaseInfo s)) of
        Inl err \<Rightarrow> s
      | Inr hisPrice \<Rightarrow>
          let s = s\<lparr>HistoricalPrice := hisPrice\<rparr>
          in (case HistoricalVolatility_YEAR dc hisPrice of
                Inl err \<Rightarrow> s
              | Inr hv \<Rightarrow> s\<lparr>HistoricalVolatility := hv\<rparr>))"

definition go_CompanyProfile ::
  "('row, 'sec) datacenter \<Rightarrow> ('row, 'sec) Stock \<Rightarrow> ('row, 'sec) Stock" where
  "go_CompanyProfile dc s =
     (case QueryCompanyProfile dc (Secucode (BaseInfo s)) of
        Inl err \<Rightarrow> s
      | Inr cp \<Rightarrow> s\<lparr>CompanyProfile := cp\<rparr>)"

definition go_FinaPublishDateList ::
  "('row, 'sec) datacenter \<Rightarrow> ('row, 'sec) Stock \<Rightarrow> ('row, 'sec) Stock" where
  "go_FinaPublishDateList dc s =
     (case QueryFinaPublishDateList dc (SecurityCode (BaseInfo s)) of
        Inl err \<Rightarrow> s
      | Inr finaPubDateList \<Rightarrow>
          (case finaPubDateList of
             [] \<Rightarrow> s
           | d # _ \<Rightarrow>
               s\<lparr>FinaAppointPublishDate := AppointPublishDate d,
                 FinaActualPublishDate := ActualPublishDate d,
                 FinaReportDate := FinaPublishDate.ReportDate d\<rparr>))"

definition go_OrgRating ::
  "('row, 'sec) datacenter \<Rightarrow> ('row, 'sec) Stock \<Rightarrow> ('row, 'sec) Stock" where
  "go_OrgRating dc s =
     (case QueryOrgRating dc (Secucode (BaseInfo s)) of
        Inl err \<Rightarrow> s
      | Inr orgRatings \<Rightarrow> s\<lparr>OrgRatingList := orgRatings\<rparr>)"

definition go_ProfitPredict ::
  "('row, 'sec) datacenter \<Rightarrow> ('row, 'sec) Stock \<Rightarrow> ('row, 'sec) Stock" where
  "go_ProfitPredict dc s =
     (case QueryProfitPredict dc (Secucode (BaseInfo s)) of
        Inl err \<Rightarrow> s
      | Inr pps \<Rightarrow> s\<lparr>ProfitPredictList := pps\<rparr>)"

definition go_JiaZhiPingGu ::
  "('row, 'sec) datacenter \<Rightarrow> ('row, 'sec) Stock \<Rightarrow> ('row, 'sec) Stock" where
  "go_JiaZhiPingGu dc s =
     (case QueryJiaZhiPingGu dc (Secucode (BaseInfo s)) of
        Inl err \<Rightarrow> s
      | Inr jzpg \<Rightarrow> s\<lparr>JZPG := jzpg\<rparr>)"

definition go_FinaGincomeData ::
  "('row, 'sec) datacenter \<Rightarrow> ('row, 'sec) Stock \<Rightarrow> ('row, 'sec) Stock" where
  "go_FinaGincomeData dc s =
     (case QueryFinaGincomeData dc (Secucode (BaseInfo s)) of
        Inl err \<Rightarrow> s
      | Inr gincomeList \<Rightarrow>
          let s = s\<lparr>HistoricalGincomeList := gincomeList\<rparr>
          in (case HistoricalGincomeList s of
                [] \<Rightarrow> s
              | gincome # _ \<Rightarrow>
                  s\<lparr>BYYSRatio :=
                      fdiv (OperateProfit gincome)
                           (fadd (OperateProfit gincome) (NonbusinessIncome gincome)),
                    FinaReportOpinion := OpinionType gincome\<rparr>))"

definition go_FinaCashflowData ::
  "('row, 'sec) datacenter \<Rightarrow> ('row, 'sec) Stock \<Rightarrow> ('row, 'sec) Stock" where
  "go_FinaCashflowData dc s =
     (case QueryFinaCashflowData dc (Secucode (BaseInfo s)) of
        Inl err \<Rightarrow> s
      | Inr cashflow \<Rightarrow>
          let s = s\<lparr>HistoricalCashflowList := cashflow\<rparr>
          in (case HistoricalCashflowList s of
                [] \<Rightarrow> s
              | cf # _ \<Rightarrow>
                  let s = s\<lparr>NetcashOperate := CashflowData.NetcashOperate cf,
                            NetcashInvest := CashflowData.NetcashInvest cf,
                            NetcashFinance := CashflowData.NetcashFinance cf\<rparr>
                  in if flt (CashflowData.NetcashInvest cf) (Fin 0)
                     then s\<lparr>NetcashFree := fadd (NetcashOperate s) (NetcashInvest s)\<rparr>
                     else s\<lparr>NetcashFree := fsub (NetcashOperate s) (NetcashInvest s)\<rparr>))"

definition go_FreeHolders ::
  "('row, 'sec) datacenter \<Rightarrow> ('row, 'sec) Stock \<Rightarrow> ('row, 'sec) Stock" where
  "go_FreeHolders dc s =
     (case QueryFreeHolders dc (Secucode (BaseInfo s)) of
        Inl err \<Rightarrow> s
      | Inr holders \<Rightarrow> s\<lparr>FreeHoldersTop10 := holders\<rparr>)"

definition go_MainMoneyNetInflows ::
  "('row, 'sec) datacenter \<Rightarrow> ('row, 'sec) Stock \<Rightarrow> ('row, 'sec) Stock" where
  "go_MainMoneyNetInflows dc s =
     (case QueryMainMoneyNetInflows dc (Secucode (BaseInfo s)) of
        Inl err \<Rightarrow> s
      | Inr inflows \<Rightarrow> s\<lparr>MainMoneyNetInflows := inflows\<rparr>)"

text \<open>The eleven goroutines that cannot panic, one after the other.\<close>

definition go_others ::
  "('row, 'sec) datacenter \<Rightarrow> ('row, 'sec) Stock \<Rightarrow> ('row, 'sec) Stock" where
  "go_others dc s =
     go_MainMoneyNetInflows dc (go_FreeHolders dc (go_FinaCashflowData dc
       (go_FinaGincomeData dc (go_JiaZhiPingGu dc (go_ProfitPredict dc (go_OrgRating dc
         (go_FinaPublishDateList dc (go_CompanyProfile dc (go_HistoricalStockPrice dc
           (go_ValuationStatus dc s))))))))))"

text \<open>
  \<open>NewStock\<close> returns \<open>(Stock, error)\<close>, and its only \<open>return\<close> is \<open>return s, nil\<close>:
  the result is the stock and the error (\<open>None\<close> for \<open>nil\<close>), unless a goroutine panicked.
\<close>

definition NewStock ::
  "('row, 'sec::zero) datacenter \<Rightarrow> StockInfo \<Rightarrow>
   panic + (('row, 'sec) Stock \<times> go_error option)" where
  "NewStock dc baseInfo =
     (let s = Stock_literal baseInfo;
          s = s\<lparr>PEG := computePEG (BaseInfo s)\<rparr>;
          price = GetPrice s
      in case go_HistoricalFinaMainData dc price s of
           Inl p \<Rightarrow> Inl p
         | Inr s \<Rightarrow> Inr (calculateBuffettScore (go_others dc s), None))"

section \<open>Sorting a stock list\<close>





section \<open>Notions used in the properties\<close>

text \<open>
  The value of \<open>price := s.GetPrice()\<close> in \<open>NewStock\<close>: it is read before any
  goroutine starts, when the price history of \<open>s\<close> is still empty.
\<close>

definition current_price :: "StockInfo \<Rightarrow> float64" where
  "current_price b = (case NewPrice b of AnyFloat64 p \<Rightarrow> p | _ \<Rightarrow> Fin (- 1))"


text \<open>
  The prior-year reasonable price as claim C9 words it: the median PE times the mean of
  the second to fourth most recent annual EPS values, times one plus the prior-year
  growth rate capped at 50 percent.  \<open>annual_eps\<close> lists the annual EPS values newest
  first.
\<close>

definition prior_year_price_as_claimed :: "real \<Rightarrow> real list \<Rightarrow> real \<Rightarrow> real" where
  "prior_year_price_as_claimed p annual_eps g =
     p * (sum_list (take 3 (drop 1 annual_eps)) / 3) * (1 + min g 50 / 100)"

text \<open>A score in the bounds \<open>lo\<close> and \<open>hi\<close>; NaN is in no bounds.\<close>

definition in_bounds :: "real \<Rightarrow> real \<Rightarrow> float64 \<Rightarrow> bool" where
  "in_bounds lo hi x = (fle (Fin lo) x \<and> fle x (Fin hi))"


section \<open>Test data\<close>

text \<open>
  Concrete inputs on which the properties below are evaluated.  Opaque rows and structs
  are natural numbers here.
\<close>

definition stock_of ::
  "panic + (('row, 'sec) Stock \<times> go_error option) \<Rightarrow> ('row, 'sec) Stock option" where
  "stock_of r = (case r of Inl p \<Rightarrow> None | Inr (s, err) \<Rightarrow> Some s)"

definition example_info :: StockInfo where
  "example_info =
     \<lparr>SecurityNameAbbr = ''ACME'', Secucode = ''600000.SH'', SecurityCode = ''600000'',
      Industry = ''Software'', NewPrice = AnyFloat64 (Fin 25), RoeWeight = Fin 12,
      PE = Fin 15, NetprofitGrowthrate3Y = Fin 10\<rparr>"

text \<open>An annual report of year \<open>y\<close> with the given EPS and ROE.\<close>

definition annual_report :: "int \<Rightarrow> real \<Rightarrow> real \<Rightarrow> FinaMainData" where
  "annual_report y eps roe =
     \<lparr>FinaMainData.ReportDate = ''12-31'', ReportYear = y, ReportType = FinaReportTypeYear,
      OrgType = ''4'', Epsjb = Fin eps, Roejq = Fin roe,
      Parentnetprofit = Fin (1000 * eps), Zcfzl = Fin 40\<rparr>"


text \<open>
  Every provider answers: the fundamentals history is \<open>hf\<close>, the median of the PE
  history is \<open>pe\<close>, and the average revenue growth of every year is \<open>growth\<close>.
\<close>

definition datacenter_up :: "FinaMainData list \<Rightarrow> real \<Rightarrow> real \<Rightarrow> (nat, nat) datacenter" where
  "datacenter_up hf pe growth =
     \<lparr>Now_Year = 2024,
      QueryHistoricalFinaMainData = (\<lambda>code. Inr hf),
      QueryHistoricalPEList = (\<lambda>code. Inr [12, 15, 18]),
      QueryValuationStatus = (\<lambda>code. Inr [''PE'' \<mapsto> ''low'']),
      QueryHistoricalStockPrice = (\<lambda>code. Inr \<lparr>Date = [''2024-01-02''], Price = [Fin 24]\<rparr>),
      QueryCompanyProfile = (\<lambda>code. Inr 7),
      QueryFinaPublishDateList =
        (\<lambda>code. Inr [\<lparr>AppointPublishDate = ''2024-04-20'', ActualPublishDate = ''2024-04-22'',
                       ReportDate = ''2023-12-31''\<rparr>]),
      QueryOrgRating = (\<lambda>code. Inr [1, 2]),
      QueryProfitPredict = (\<lambda>code. Inr [3]),
      QueryJiaZhiPingGu = (\<lambda>code. Inr 9),
      QueryFinaGincomeData =
        (\<lambda>code. Inr [\<lparr>OperateProfit = Fin 90, NonbusinessIncome = Fin 10,
                       OpinionType = ''standard''\<rparr>]),
      QueryFinaCashflowData =
        (\<lambda>code. Inr [\<lparr>CashflowData.NetcashOperate = Fin 100, CashflowData.NetcashInvest = Fin (- 30),
                       CashflowData.NetcashFinance = Fin (- 20)\<rparr>,
                      \<lparr>CashflowData.NetcashOperate = Fin 80, CashflowData.NetcashInvest = Fin 10,
                       CashflowData.NetcashFinance = Fin 5\<rparr>,
                      \<lparr>CashflowData.NetcashOperate = Fin (- 5), CashflowData.NetcashInvest = Fin (- 40),
                       CashflowData.NetcashFinance = Fin 60\<rparr>]),
      QueryFreeHolders = (\<lambda>code. Inr [4, 5]),
      QueryMainMoneyNetInflows = (\<lambda>code. Inr [6]),
      GetAvgRevenueIncreasingRatioByYear = (\<lambda>h year. Fin growth),
      GetMidValue = (\<lambda>pes. Inr (Fin pe)),
      HistoricalVolatility_YEAR = (\<lambda>prices. Inr (Fin 0.2))\<rparr>"

text \<open>A stock whose fundamentals history is \<open>hf\<close>, every other section empty.\<close>

definition stock_with_history :: "FinaMainData list \<Rightarrow> (nat, nat) Stock" where
  "stock_with_history hf = (Stock_literal example_info)\<lparr>HistoricalFinaMainData := hf\<rparr>"

text \<open>
  Fundamentals histories, newest first: the end-to-end example of the specification
  (EPS 2.0, 1.0, 0.8), a company whose average EPS is negative, a company whose losses
  tripled, four years of reports, and a company with a single annual report.
\<close>

definition spec_history :: "FinaMainData list" where
  "spec_history = [annual_report 2023 2 25, annual_report 2022 1 25, annual_report 2021 0.8 25]"


definition deeper_loss_history :: "FinaMainData list" where
  "deeper_loss_history =
     [annual_report 2023 (- 3) 25, annual_report 2022 (- 1) 25, annual_report 2021 (- 1) 25]"

definition four_year_history :: "FinaMainData list" where
  "four_year_history =
     [annual_report 2023 4 25, annual_report 2022 2 25, annual_report 2021 1 25,
      annual_report 2020 3 25]"

definition one_year_history :: "FinaMainData list" where
  "one_year_history = [annual_report 2023 2 25]"

text \<open>
  Two loss-making companies: one with a single annual report, and one whose three annual
  reports are all older than the year before last.
\<close>

definition one_year_loss_history :: "FinaMainData list" where
  "one_year_loss_history = [annual_report 2023 (- 2) 25]"

definition stale_loss_history :: "FinaMainData list" where
  "stale_loss_history =
     [annual_report 2021 (- 1) 25, annual_report 2020 (- 1) 25, annual_report 2019 (- 1) 25]"

text \<open>Five annual reports of a company whose return on equity is -10 percent each year.\<close>

definition roe_loss_history :: "FinaMainData list" where
  "roe_loss_history =
     [annual_report 2023 (- 1) (- 10), annual_report 2022 (- 1) (- 10),
      annual_report 2021 (- 1) (- 10), annual_report 2020 (- 1) (- 10),
      annual_report 2019 (- 1) (- 10)]"

text \<open>Five annual reports with a return on equity of 25 percent each year.\<close>

definition steady_history :: "FinaMainData list" where
  "steady_history =
     [annual_report 2023 2 25, annual_report 2022 2 25, annual_report 2021 2 25,
      annual_report 2020 2 25, annual_report 2019 2 25]"

text \<open>
  A bank with a PE of 8, three years of positive operating cash flow and five annual reports
  with a return on equity of 25 percent and profits that grow by 10 percent a year.
\<close>

definition growth_history :: "FinaMainData list" where
  "growth_history =
     [annual_report 2023 1.4641 25, annual_report 2022 1.331 25, annual_report 2021 1.21 25,
      annual_report 2020 1.1 25, annual_report 2019 1 25]"

definition quality_stock :: "(nat, nat) Stock" where
  "quality_stock =
     (Stock_literal
        (example_info\<lparr>Industry := [CHR 0xE9, CHR 0x93, CHR 0xB6, CHR 0xE8, CHR 0xA1, CHR 0x8C],
                        PE := Fin 8\<rparr>))
       \<lparr>HistoricalFinaMainData := growth_history,
        HistoricalCashflowList :=
          [\<lparr>CashflowData.NetcashOperate = Fin 100, CashflowData.NetcashInvest = Fin (- 30),
            CashflowData.NetcashFinance = Fin (- 20)\<rparr>,
           \<lparr>CashflowData.NetcashOperate = Fin 80, CashflowData.NetcashInvest = Fin 10,
            CashflowData.NetcashFinance = Fin 5\<rparr>,
           \<lparr>CashflowData.NetcashOperate = Fin 60, CashflowData.NetcashInvest = Fin (- 40),
            CashflowData.NetcashFinance = Fin 60\<rparr>],
        PEG := Fin 0.8\<rparr>"




section \<open>What each step writes\<close>

lemma go_ValuationStatus_eq:
  "go_ValuationStatus dc s =
     s\<lparr>ValuationMap := (case QueryValuationStatus dc (Secucode (BaseInfo s)) of
                           Inl e \<Rightarrow> ValuationMap s | Inr v \<Rightarrow> v)\<rparr>"
  by (simp add: go_ValuationStatus_def split: sum.splits)

lemma go_HistoricalStockPrice_eq:
  "go_HistoricalStockPrice dc s =
     s\<lparr>HistoricalPrice :=
         (case QueryHistoricalStockPrice dc (Secucode (BaseInfo s)) of
            Inl e \<Rightarrow> HistoricalPrice s | Inr hp \<Rightarrow> hp),
       HistoricalVolatility :=
         (case QueryHistoricalStockPrice dc (Secucode (BaseInfo s)) of
            Inl e \<Rightarrow> HistoricalVolatility s
          | Inr hp \<Rightarrow> (case HistoricalVolatility_YEAR dc hp of
                        Inl e \<Rightarrow> HistoricalVolatility s | Inr hv \<Rightarrow> hv))\<rparr>"
  by (simp add: go_HistoricalStockPrice_def split: sum.splits)

lemma go_CompanyProfile_eq:
  "go_CompanyProfile dc s =
     s\<lparr>CompanyProfile := (case QueryCompanyProfile dc (Secucode (BaseInfo s)) of
                             Inl e \<Rightarrow> CompanyProfile s | Inr v \<Rightarrow> v)\<rparr>"
  by (simp add: go_CompanyProfile_def split: sum.splits)

lemma go_FinaPublishDateList_eq:
  "go_FinaPublishDateList dc s =
     s\<lparr>FinaAppointPublishDate :=
         (case QueryFinaPublishDateList dc (SecurityCode (BaseInfo s)) of
            Inr (d # ds) \<Rightarrow> AppointPublishDate d | _ \<Rightarrow> FinaAppointPublishDate s),
       FinaActualPublishDate :=
         (case QueryFinaPublishDateList dc (SecurityCode (BaseInfo s)) of
            Inr (d # ds) \<Rightarrow> ActualPublishDate d | _ \<Rightarrow> FinaActualPublishDate s),
       FinaReportDate :=
         (case QueryFinaPublishDateList dc (SecurityCode (BaseInfo s)) of
            Inr (d # ds) \<Rightarrow> FinaPublishDate.ReportDate d | _ \<Rightarrow> FinaReportDate s)\<rparr>"
  by (simp add: go_FinaPublishDateList_def split: sum.splits list.splits)

lemma go_OrgRating_eq:
  "go_OrgRating dc s =
     s\<lparr>OrgRatingList := (case QueryOrgRating dc (Secucode (BaseInfo s)) of
                            Inl e \<Rightarrow> OrgRatingList s | Inr v \<Rightarrow> v)\<rparr>"
  by (simp add: go_OrgRating_def split: sum.splits)

lemma go_ProfitPredict_eq:
  "go_ProfitPredict dc s =
     s\<lparr>ProfitPredictList := (case QueryProfitPredict dc (Secucode (BaseInfo s)) of
                                Inl e \<Rightarrow> ProfitPredictList s | Inr v \<Rightarrow> v)\<rparr>"
  by (simp add: go_ProfitPredict_def split: sum.splits)

lemma go_JiaZhiPingGu_eq:
  "go_JiaZhiPingGu dc s =
     s\<lparr>JZPG := (case QueryJiaZhiPingGu dc (Secucode (BaseInfo s)) of
                   Inl e \<Rightarrow> JZPG s | Inr v \<Rightarrow> v)\<rparr>"
  by (simp add: go_JiaZhiPingGu_def split: sum.splits)

lemma go_FinaGincomeData_eq:
  "go_FinaGincomeData dc s =
     s\<lparr>HistoricalGincomeList :=
         (case QueryFinaGincomeData dc (Secucode (BaseInfo s)) of
            Inl e \<Rightarrow> HistoricalGincomeList s | Inr v \<Rightarrow> v),
       BYYSRatio :=
         (case QueryFinaGincomeData dc (Secucode (BaseInfo s)) of
            Inr (g # gs) \<Rightarrow>
              fdiv (OperateProfit g) (fadd (OperateProfit g) (NonbusinessIncome g))
          | _ \<Rightarrow> BYYSRatio s),
       FinaReportOpinion :=
         (case QueryFinaGincomeData dc (Secucode (BaseInfo s)) of
            Inr (g # gs) \<Rightarrow> OpinionType g | _ \<Rightarrow> FinaReportOpinion s)\<rparr>"
  by (simp add: go_FinaGincomeData_def split: sum.splits list.splits)

lemma go_FinaCashflowData_eq:
  "go_FinaCashflowData dc s =
     s\<lparr>HistoricalCashflowList :=
         (case QueryFinaCashflowData dc (Secucode (BaseInfo s)) of
            Inl e \<Rightarrow> HistoricalCashflowList s | Inr v \<Rightarrow> v),
       NetcashOperate :=
         (case QueryFinaCashflowData dc (Secucode (BaseInfo s)) of
            Inr (cf # cfs) \<Rightarrow> CashflowData.NetcashOperate cf | _ \<Rightarrow> NetcashOperate s),
       NetcashInvest :=
         (case QueryFinaCashflowData dc (Secucode (BaseInfo s)) of
            Inr (cf # cfs) \<Rightarrow> CashflowData.NetcashInvest cf | _ \<Rightarrow> NetcashInvest s),
       NetcashFinance :=
         (case QueryFinaCashflowData dc (Secucode (BaseInfo s)) of
            Inr (cf # cfs) \<Rightarrow> CashflowData.NetcashFinance cf | _ \<Rightarrow> NetcashFinance s),
       NetcashFree :=
         (case QueryFinaCashflowData dc (Secucode (BaseInfo s)) of
            Inr (cf # cfs) \<Rightarrow>
              (if flt (CashflowData.NetcashInvest cf) (Fin 0)
               then fadd (CashflowData.NetcashOperate cf) (CashflowData.NetcashInvest cf)
               else fsub (CashflowData.NetcashOperate cf) (CashflowData.NetcashInvest cf))
          | _ \<Rightarrow> NetcashFree s)\<rparr>"
  by (simp add: go_FinaCashflowData_def split: sum.splits list.splits)

lemma go_FreeHolders_eq:
  "go_FreeHolders dc s =
     s\<lparr>FreeHoldersTop10 := (case QueryFreeHolders dc (Secucode (BaseInfo s)) of
                               Inl e \<Rightarrow> FreeHoldersTop10 s | Inr v \<Rightarrow> v)\<rparr>"
  by (simp add: go_FreeHolders_def split: sum.splits)

lemma go_MainMoneyNetInflows_eq:
  "go_MainMoneyNetInflows dc s =
     s\<lparr>MainMoneyNetInflows := (case QueryMainMoneyNetInflows dc (Secucode (BaseInfo s)) of
                                  Inl e \<Rightarrow> MainMoneyNetInflows s | Inr v \<Rightarrow> v)\<rparr>"
  by (simp add: go_MainMoneyNetInflows_def split: sum.splits)

lemmas go_eqs = go_ValuationStatus_eq go_HistoricalStockPrice_eq go_CompanyProfile_eq
  go_FinaPublishDateList_eq go_OrgRating_eq go_ProfitPredict_eq go_JiaZhiPingGu_eq
  go_FinaGincomeData_eq go_FinaCashflowData_eq go_FreeHolders_eq go_MainMoneyNetInflows_eq

lemma go_others_kept:
  "BaseInfo (go_others dc s) = BaseInfo s"
  "HistoricalFinaMainData (go_others dc s) = HistoricalFinaMainData s"
  "HistoricalPEList (go_others dc s) = HistoricalPEList s"
  "RightPrice (go_others dc s) = RightPrice s"
  "PriceSpace (go_others dc s) = PriceSpace s"
  "LastYearRightPrice (go_others dc s) = LastYearRightPrice s"
  "PEG (go_others dc s) = PEG s"
  "BuffettScore (go_others dc s) = BuffettScore s"
  by (simp_all add: go_others_def go_eqs cong del: sum.case_cong_weak list.case_cong_weak)

lemma rightPrice_steps_shape:
  assumes "rightPrice_steps m eps r1 r2 g1 g2 price s = Inr s'"
  shows "s' = s\<lparr>RightPrice := RightPrice s', PriceSpace := PriceSpace s',
                 LastYearRightPrice := LastYearRightPrice s'\<rparr>"
proof -
  obtain b where b: "baseEPS_of eps r1 = Inr b"
    using assms by (cases "baseEPS_of eps r1") (simp_all add: rightPrice_steps_def)
  obtain lb where lb: "lastYearBaseEPS_of eps r2 = Inr lb"
    using assms b by (cases "lastYearBaseEPS_of eps r2") (simp_all add: rightPrice_steps_def Let_def)
  show ?thesis
  proof (cases "deref_Epsjb r1")
    case (Inl p)
    with assms b lb show ?thesis
      by (auto simp add: rightPrice_steps_def Let_def split: if_splits)
  next
    case (Inr e)
    with assms b lb show ?thesis
      by (auto simp add: rightPrice_steps_def Let_def split: if_splits)
  qed
qed


lemma go_HistoricalFinaMainData_shape:
  assumes "go_HistoricalFinaMainData dc price s = Inr s'"
  shows "s' = s\<lparr>HistoricalFinaMainData := HistoricalFinaMainData s',
                 HistoricalPEList := HistoricalPEList s',
                 RightPrice := RightPrice s', PriceSpace := PriceSpace s',
                 LastYearRightPrice := LastYearRightPrice s'\<rparr>"
proof (cases "QueryHistoricalFinaMainData dc (Secucode (BaseInfo s))")
  case (Inl e)
  with assms show ?thesis by (auto simp add: go_HistoricalFinaMainData_def)
next
  case hf: (Inr hf)
  show ?thesis
  proof (cases "hf = []")
    case True
    with assms hf show ?thesis by (auto simp add: go_HistoricalFinaMainData_def)
  next
    case ne: False
    show ?thesis
    proof (cases "QueryHistoricalPEList dc (Secucode (BaseInfo s))")
      case (Inl e)
      with assms hf ne show ?thesis by (auto simp: go_HistoricalFinaMainData_def)
    next
      case pe: (Inr peList)
      show ?thesis
      proof (cases "GetMidValue dc peList")
        case (Inl e)
        with assms hf ne pe show ?thesis
          by (auto simp: go_HistoricalFinaMainData_def Let_def split: prod.splits)
      next
        case (Inr m)
        with assms hf ne pe obtain r1 r2 g1 g2 where
          "rightPrice_steps m (ValueList hf ValueListTypeEPS 3 FinaReportTypeYear) r1 r2 g1 g2
             price (s\<lparr>HistoricalFinaMainData := hf, HistoricalPEList := peList\<rparr>) = Inr s'"
          by (auto simp: go_HistoricalFinaMainData_def Let_def split: prod.splits)
        note eq = rightPrice_steps_shape [OF this]
        have hf': "HistoricalFinaMainData s' = hf" by (subst eq) simp
        have pe': "HistoricalPEList s' = peList" by (subst eq) simp
        show ?thesis by (subst eq) (simp add: hf' pe')
      qed
    qed
  qed
qed

lemma BaseInfo_literal: "BaseInfo (Stock_literal b) = b"
  by (simp add: Stock_literal_def)

lemma NewStock_Inr:
  fixes dc :: "('row, 'sec::zero) datacenter"
  assumes "NewStock dc b = Inr (s, err)"
  shows "\<exists>s1.
    go_HistoricalFinaMainData dc
       (GetPrice ((Stock_literal b :: ('row, 'sec) Stock)\<lparr>PEG := computePEG b\<rparr>))
       ((Stock_literal b)\<lparr>PEG := computePEG b\<rparr>) = Inr s1
    \<and> s = calculateBuffettScore (go_others dc s1) \<and> err = None"
  using assms
  by (auto simp: NewStock_def Let_def BaseInfo_literal split: sum.splits)

subsection \<open>The scoring functions\<close>

lemma calculateROEScore_upd:
  "calculateROEScore s = s\<lparr>BuffettScore := (BuffettScore s)\<lparr>ROEScore := ROEScore (BuffettScore (calculateROEScore s))\<rparr>\<rparr>"
  by (simp add: calculateROEScore_def Let_def)

lemma calculateROEScore_indep:
  "ROEScore (BuffettScore (calculateROEScore (s\<lparr>BuffettScore := b\<rparr>))) = ROEScore (BuffettScore (calculateROEScore s))"
  by (simp add: calculateROEScore_def Let_def)

lemma calculateCashFlowScore_upd:
  "calculateCashFlowScore s = s\<lparr>BuffettScore := (BuffettScore s)\<lparr>CashFlowScore := CashFlowScore (BuffettScore (calculateCashFlowScore s))\<rparr>\<rparr>"
  by (simp add: calculateCashFlowScore_def Let_def)

lemma calculateCashFlowScore_indep:
  "CashFlowScore (BuffettScore (calculateCashFlowScore (s\<lparr>BuffettScore := b\<rparr>))) = CashFlowScore (BuffettScore (calculateCashFlowScore s))"
  by (simp add: calculateCashFlowScore_def Let_def)

lemma calculateProfitGrowthScore_upd:
  "calculateProfitGrowthScore s = s\<lparr>BuffettScore := (BuffettScore s)\<lparr>ProfitGrowthScore := ProfitGrowthScore (BuffettScore (calculateProfitGrowthScore s))\<rparr>\<rparr>"
  by (simp add: calculateProfitGrowthScore_def Let_def)

lemma calculateProfitGrowthScore_indep:
  "ProfitGrowthScore (BuffettScore (calculateProfitGrowthScore (s\<lparr>BuffettScore := b\<rparr>))) = ProfitGrowthScore (BuffettScore (calculateProfitGrowthScore s))"
  by (simp add: calculateProfitGrowthScore_def Let_def)

lemma calculateDebtRatioScore_upd:
  "calculateDebtRatioScore s = s\<lparr>BuffettScore := (BuffettScore s)\<lparr>DebtRatioScore := DebtRatioScore (BuffettScore (calculateDebtRatioScore s))\<rparr>\<rparr>"
  by (simp add: calculateDebtRatioScore_def Let_def split: list.splits)

lemma calculateDebtRatioScore_indep:
  "DebtRatioScore (BuffettScore (calculateDebtRatioScore (s\<lparr>BuffettScore := b\<rparr>))) = DebtRatioScore (BuffettScore (calculateDebtRatioScore s))"
  by (simp add: calculateDebtRatioScore_def Let_def split: list.splits)

lemma calculateMoatScore_upd:
  "calculateMoatScore s = s\<lparr>BuffettScore := (BuffettScore s)\<lparr>MoatScore := MoatScore (BuffettScore (calculateMoatScore s))\<rparr>\<rparr>"
  by (simp add: calculateMoatScore_def Let_def)

lemma calculateMoatScore_indep:
  "MoatScore (BuffettScore (calculateMoatScore (s\<lparr>BuffettScore := b\<rparr>))) = MoatScore (BuffettScore (calculateMoatScore s))"
  by (simp add: calculateMoatScore_def Let_def)

lemma calculateManagementScore_upd:
  "calculateManagementScore s = s\<lparr>BuffettScore := (BuffettScore s)\<lparr>ManagementScore := ManagementScore (BuffettScore (calculateManagementScore s))\<rparr>\<rparr>"
  by (simp add: calculateManagementScore_def Let_def)

lemma calculateManagementScore_indep:
  "ManagementScore (BuffettScore (calculateManagementScore (s\<lparr>BuffettScore := b\<rparr>))) = ManagementScore (BuffettScore (calculateManagementScore s))"
  by (simp add: calculateManagementScore_def Let_def)

lemma calculateValuationScore_upd:
  "calculateValuationScore s = s\<lparr>BuffettScore := (BuffettScore s)\<lparr>ValuationScore := ValuationScore (BuffettScore (calculateValuationScore s))\<rparr>\<rparr>"
  by (simp add: calculateValuationScore_def Let_def)

lemma calculateValuationScore_indep:
  "ValuationScore (BuffettScore (calculateValuationScore (s\<lparr>BuffettScore := b\<rparr>))) = ValuationScore (BuffettScore (calculateValuationScore s))"
  by (simp add: calculateValuationScore_def Let_def)

lemma calculateRDScore_upd:
  "calculateRDScore s = s\<lparr>BuffettScore := (BuffettScore s)\<lparr>RDScore := RDScore (BuffettScore (calculateRDScore s))\<rparr>\<rparr>"
  by (simp add: calculateRDScore_def Let_def)

lemma calculateRDScore_indep:
  "RDScore (BuffettScore (calculateRDScore (s\<lparr>BuffettScore := b\<rparr>))) = RDScore (BuffettScore (calculateRDScore s))"
  by (simp add: calculateRDScore_def Let_def)

lemma calculateDividendScore_upd:
  "calculateDividendScore s = s\<lparr>BuffettScore := (BuffettScore s)\<lparr>DividendScore := DividendScore (BuffettScore (calculateDividendScore s))\<rparr>\<rparr>"
  by (simp add: calculateDividendScore_def Let_def)

lemma calculateDividendScore_indep:
  "DividendScore (BuffettScore (calculateDividendScore (s\<lparr>BuffettScore := b\<rparr>))) = DividendScore (BuffettScore (calculateDividendScore s))"
  by (simp add: calculateDividendScore_def Let_def)

lemma calculateRepurchaseScore_upd:
  "calculateRepurchaseScore s = s\<lparr>BuffettScore := (BuffettScore s)\<lparr>RepurchaseScore := RepurchaseScore (BuffettScore (calculateRepurchaseScore s))\<rparr>\<rparr>"
  by (simp add: calculateRepurchaseScore_def Let_def)

lemma calculateRepurchaseScore_indep:
  "RepurchaseScore (BuffettScore (calculateRepurchaseScore (s\<lparr>BuffettScore := b\<rparr>))) = RepurchaseScore (BuffettScore (calculateRepurchaseScore s))"
  by (simp add: calculateRepurchaseScore_def Let_def)


lemma calculateROEScore_step:
  "calculateROEScore (s\<lparr>BuffettScore := b\<rparr>) =
     s\<lparr>BuffettScore := b\<lparr>ROEScore := ROEScore (BuffettScore (calculateROEScore s))\<rparr>\<rparr>"
  by (subst calculateROEScore_upd) (simp add: calculateROEScore_indep)

lemma calculateCashFlowScore_step:
  "calculateCashFlowScore (s\<lparr>BuffettScore := b\<rparr>) =
     s\<lparr>BuffettScore := b\<lparr>CashFlowScore := CashFlowScore (BuffettScore (calculateCashFlowScore s))\<rparr>\<rparr>"
  by (subst calculateCashFlowScore_upd) (simp add: calculateCashFlowScore_indep)

lemma calculateProfitGrowthScore_step:
  "calculateProfitGrowthScore (s\<lparr>BuffettScore := b\<rparr>) =
     s\<lparr>BuffettScore := b\<lparr>ProfitGrowthScore := ProfitGrowthScore (BuffettScore (calculateProfitGrowthScore s))\<rparr>\<rparr>"
  by (subst calculateProfitGrowthScore_upd) (simp add: calculateProfitGrowthScore_indep)

lemma calculateDebtRatioScore_step:
  "calculateDebtRatioScore (s\<lparr>BuffettScore := b\<rparr>) =
     s\<lparr>BuffettScore := b\<lparr>DebtRatioScore := DebtRatioScore (BuffettScore (calculateDebtRatioScore s))\<rparr>\<rparr>"
  by (subst calculateDebtRatioScore_upd) (simp add: calculateDebtRatioScore_indep)

lemma calculateMoatScore_step:
  "calculateMoatScore (s\<lparr>BuffettScore := b\<rparr>) =
     s\<lparr>BuffettScore := b\<lparr>MoatScore := MoatScore (BuffettScore (calculateMoatScore s))\<rparr>\<rparr>"
  by (subst calculateMoatScore_upd) (simp add: calculateMoatScore_indep)

lemma calculateManagementScore_step:
  "calculateManagementScore (s\<lparr>BuffettScore := b\<rparr>) =
     s\<lparr>BuffettScore := b\<lparr>ManagementScore := ManagementScore (BuffettScore (calculateManagementScore s))\<rparr>\<rparr>"
  by (subst calculateManagementScore_upd) (simp add: calculateManagementScore_indep)

lemma calculateValuationScore_step:
  "calculateValuationScore (s\<lparr>BuffettScore := b\<rparr>) =
     s\<lparr>BuffettScore := b\<lparr>ValuationScore := ValuationScore (BuffettScore (calculateValuationScore s))\<rparr>\<rparr>"
  by (subst calculateValuationScore_upd) (simp add: calculateValuationScore_indep)

lemma calculateRDScore_step:
  "calculateRDScore (s\<lparr>BuffettScore := b\<rparr>) =
     s\<lparr>BuffettScore := b\<lparr>RDScore := RDScore (BuffettScore (calculateRDScore s))\<rparr>\<rparr>"
  by (subst calculateRDScore_upd) (simp add: calculateRDScore_indep)

lemma calculateDividendScore_step:
  "calculateDividendScore (s\<lparr>BuffettScore := b\<rparr>) =
     s\<lparr>BuffettScore := b\<lparr>DividendScore := DividendScore (BuffettScore (calculateDividendScore s))\<rparr>\<rparr>"
  by (subst calculateDividendScore_upd) (simp add: calculateDividendScore_indep)

lemma calculateRepurchaseScore_step:
  "calculateRepurchaseScore (s\<lparr>BuffettScore := b\<rparr>) =
     s\<lparr>BuffettScore := b\<lparr>RepurchaseScore := RepurchaseScore (BuffettScore (calculateRepurchaseScore s))\<rparr>\<rparr>"
  by (subst calculateRepurchaseScore_upd) (simp add: calculateRepurchaseScore_indep)

lemmas score_steps = calculateCashFlowScore_step calculateProfitGrowthScore_step calculateDebtRatioScore_step calculateMoatScore_step calculateManagementScore_step calculateValuationScore_step calculateRDScore_step calculateDividendScore_step calculateRepurchaseScore_step

lemma calculateBuffettScore_eq:
  "calculateBuffettScore s =
     (let B = (BuffettScore s)\<lparr>
             ROEScore := ROEScore (BuffettScore (calculateROEScore s)),
             CashFlowScore := CashFlowScore (BuffettScore (calculateCashFlowScore s)),
             ProfitGrowthScore := ProfitGrowthScore (BuffettScore (calculateProfitGrowthScore s)),
             DebtRatioScore := DebtRatioScore (BuffettScore (calculateDebtRatioScore s)),
             MoatScore := MoatScore (BuffettScore (calculateMoatScore s)),
             ManagementScore := ManagementScore (BuffettScore (calculateManagementScore s)),
             ValuationScore := ValuationScore (BuffettScore (calculateValuationScore s)),
             RDScore := RDScore (BuffettScore (calculateRDScore s)),
             DividendScore := DividendScore (BuffettScore (calculateDividendScore s)),
             RepurchaseScore := RepurchaseScore (BuffettScore (calculateRepurchaseScore s))\<rparr>
      in s\<lparr>BuffettScore := B\<lparr>TotalScore := totalScore B\<rparr>\<rparr>)"
proof -
  define v where "v = ROEScore (BuffettScore (calculateROEScore s))"
  have 1: "calculateROEScore s = s\<lparr>BuffettScore := (BuffettScore s)\<lparr>ROEScore := v\<rparr>\<rparr>"
    unfolding v_def by (rule calculateROEScore_upd)
  show ?thesis
    unfolding calculateBuffettScore_def Let_def v_def [symmetric]
    by (simp add: 1 score_steps)
qed

lemma calculateBuffettScore_fields:
  "ROEScore (BuffettScore (calculateBuffettScore s)) = ROEScore (BuffettScore (calculateROEScore s))"
  "CashFlowScore (BuffettScore (calculateBuffettScore s)) = CashFlowScore (BuffettScore (calculateCashFlowScore s))"
  "ProfitGrowthScore (BuffettScore (calculateBuffettScore s)) = ProfitGrowthScore (BuffettScore (calculateProfitGrowthScore s))"
  "DebtRatioScore (BuffettScore (calculateBuffettScore s)) = DebtRatioScore (BuffettScore (calculateDebtRatioScore s))"
  "MoatScore (BuffettScore (calculateBuffettScore s)) = MoatScore (BuffettScore (calculateMoatScore s))"
  "ManagementScore (BuffettScore (calculateBuffettScore s)) = ManagementScore (BuffettScore (calculateManagementScore s))"
  "ValuationScore (BuffettScore (calculateBuffettScore s)) = ValuationScore (BuffettScore (calculateValuationScore s))"
  "RDScore (BuffettScore (calculateBuffettScore s)) = RDScore (BuffettScore (calculateRDScore s))"
  "DividendScore (BuffettScore (calculateBuffettScore s)) = DividendScore (BuffettScore (calculateDividendScore s))"
  "RepurchaseScore (BuffettScore (calculateBuffettScore s)) = RepurchaseScore (BuffettScore (calculateRepurchaseScore s))"
  by (simp_all add: calculateBuffettScore_eq Let_def)

lemma calculateBuffettScore_total:
  "TotalScore (BuffettScore (calculateBuffettScore s)) =
     totalScore (BuffettScore (calculateBuffettScore s))"
  by (simp add: calculateBuffettScore_eq Let_def totalScore_def)

lemma calculateBuffettScore_kept:
  "BaseInfo (calculateBuffettScore s) = BaseInfo s"
  "HistoricalFinaMainData (calculateBuffettScore s) = HistoricalFinaMainData s"
  "HistoricalPEList (calculateBuffettScore s) = HistoricalPEList s"
  "RightPrice (calculateBuffettScore s) = RightPrice s"
  "PriceSpace (calculateBuffettScore s) = PriceSpace s"
  "LastYearRightPrice (calculateBuffettScore s) = LastYearRightPrice s"
  "PEG (calculateBuffettScore s) = PEG s"
  "HistoricalCashflowList (calculateBuffettScore s) = HistoricalCashflowList s"
  "NetcashOperate (calculateBuffettScore s) = NetcashOperate s"
  "NetcashInvest (calculateBuffettScore s) = NetcashInvest s"
  "NetcashFinance (calculateBuffettScore s) = NetcashFinance s"
  "NetcashFree (calculateBuffettScore s) = NetcashFree s"
  by (simp_all add: calculateBuffettScore_eq Let_def)


lemma go_others_cashflow:
  "HistoricalCashflowList (go_others dc s) =
     (case QueryFinaCashflowData dc (Secucode (BaseInfo s)) of
        Inl e \<Rightarrow> HistoricalCashflowList s | Inr v \<Rightarrow> v)"
  "NetcashOperate (go_others dc s) =
     (case QueryFinaCashflowData dc (Secucode (BaseInfo s)) of
        Inr (cf # cfs) \<Rightarrow> CashflowData.NetcashOperate cf | _ \<Rightarrow> NetcashOperate s)"
  "NetcashInvest (go_others dc s) =
     (case QueryFinaCashflowData dc (Secucode (BaseInfo s)) of
        Inr (cf # cfs) \<Rightarrow> CashflowData.NetcashInvest cf | _ \<Rightarrow> NetcashInvest s)"
  "NetcashFinance (go_others dc s) =
     (case QueryFinaCashflowData dc (Secucode (BaseInfo s)) of
        Inr (cf # cfs) \<Rightarrow> CashflowData.NetcashFinance cf | _ \<Rightarrow> NetcashFinance s)"
  "NetcashFree (go_others dc s) =
     (case QueryFinaCashflowData dc (Secucode (BaseInfo s)) of
        Inr (cf # cfs) \<Rightarrow>
          (if flt (CashflowData.NetcashInvest cf) (Fin 0)
           then fadd (CashflowData.NetcashOperate cf) (CashflowData.NetcashInvest cf)
           else fsub (CashflowData.NetcashOperate cf) (CashflowData.NetcashInvest cf))
      | _ \<Rightarrow> NetcashFree s)"
  by (simp_all add: go_others_def go_eqs cong del: sum.case_cong_weak list.case_cong_weak)


lemma NewStock_cashflow_list:
  assumes "NewStock dc b = Inr (s, err)"
  shows "HistoricalCashflowList s =
     (case QueryFinaCashflowData dc (Secucode b) of Inl e \<Rightarrow> [] | Inr v \<Rightarrow> v)"
proof -
  from assms obtain s1 p where
    s1: "go_HistoricalFinaMainData dc p ((Stock_literal b)\<lparr>PEG := computePEG b\<rparr>) = Inr s1"
    and s: "s = calculateBuffettScore (go_others dc s1)"
    using NewStock_Inr by blast
  note shape = go_HistoricalFinaMainData_shape [OF s1]
  have empty: "HistoricalCashflowList s1 = []"
    by (subst shape) (simp add: Stock_literal_def)
  have code: "Secucode (BaseInfo s1) = Secucode b"
    by (subst shape) (simp add: BaseInfo_literal)
  show ?thesis
    by (simp add: s calculateBuffettScore_kept go_others_cashflow code empty split: sum.splits)
qed


section \<open>The valuation in exact arithmetic\<close>

lemma GetPrice_current:
  "GetPrice ((Stock_literal b)\<lparr>PEG := p\<rparr>) = current_price b"
  by (simp add: GetPrice_def Stock_literal_def current_price_def split: go_any.splits)

lemma foldl_fadd_Fin: "foldl fadd (Fin a) (map Fin es) = Fin (a + sum_list es)"
  by (induction es arbitrary: a) (simp_all add: add.assoc)

lemma sum_float64_Fin: "sum_float64 (map Fin es) = Fin (sum_list es)"
  by (simp add: sum_float64_def foldl_fadd_Fin)

lemma adjustedGrowthRatio_of_Fin: "adjustedGrowthRatio_of (Fin g) = Fin (min g 50)"
  by (simp add: adjustedGrowthRatio_of_def maxGrowthRate_def fgt_def)

lemma rightPrice_of_Fin:
  "rightPrice_of (Fin p) (Fin b) (Fin a) (Fin m) = Fin (p * b * (1 + a / 100) * m)"
  by (simp add: rightPrice_of_def mult.assoc)

lemma lastYearRightPrice_of_Fin:
  "lastYearRightPrice_of (Fin p) (Fin b) (Fin a) = Fin (p * b * (1 + a / 100))"
  by (simp add: lastYearRightPrice_of_def mult.assoc)

lemma invalid_RightPrice_Fin: "invalid_RightPrice (Fin x) \<longleftrightarrow> x \<le> 0"
  by (auto simp: invalid_RightPrice_def math_IsNaN_def math_IsInf_def fle_def)

lemma rightPrice_steps_eq:
  assumes "baseEPS_of eps r1 = Inr b" and "lastYearBaseEPS_of eps r2 = Inr lb"
  shows "rightPrice_steps m eps r1 r2 g1 g2 price s =
     (let rp = rightPrice_of m b (adjustedGrowthRatio_of g1) (explosiveGrowthAdjustment_of eps);
          lrp = lastYearRightPrice_of m lb (adjustedGrowthRatio_of g2)
      in if invalid_RightPrice rp
         then (case r1 of
                 None \<Rightarrow> Inl NilPointerDereference
               | Some r \<Rightarrow>
                   Inr (s\<lparr>RightPrice := fmul m (Epsjb r),
                          PriceSpace := priceSpace_of (fmul m (Epsjb r)) price,
                          LastYearRightPrice := lrp\<rparr>))
         else Inr (s\<lparr>RightPrice := rp, PriceSpace := priceSpace_of rp price,
                     LastYearRightPrice := lrp\<rparr>))"
  using assms
  by (simp add: rightPrice_steps_def Let_def deref_Epsjb_def split: option.splits)

lemma rightPrice_steps_panic:
  "baseEPS_of eps r1 = Inl p \<Longrightarrow> rightPrice_steps m eps r1 r2 g1 g2 price s = Inl p"
  "baseEPS_of eps r1 = Inr b \<Longrightarrow> lastYearBaseEPS_of eps r2 = Inl p \<Longrightarrow>
     rightPrice_steps m eps r1 r2 g1 g2 price s = Inl p"
  by (simp_all add: rightPrice_steps_def Let_def)

lemma NewStock_valuation:
  fixes dc :: "('row, 'sec::zero) datacenter"
  assumes "QueryHistoricalFinaMainData dc (Secucode b) = Inr hf" and "hf \<noteq> []"
    and "QueryHistoricalPEList dc (Secucode b) = Inr peList"
    and "GetMidValue dc peList = Inr m"
    and "resolve_reports dc hf = (r1, r2, g1, g2)"
  shows "NewStock dc b =
     (case rightPrice_steps m (ValueList hf ValueListTypeEPS 3 FinaReportTypeYear) r1 r2 g1 g2
             (current_price b)
             ((Stock_literal b)\<lparr>PEG := computePEG b, HistoricalFinaMainData := hf,
                                  HistoricalPEList := peList\<rparr>) of
        Inl p \<Rightarrow> Inl p
      | Inr s1 \<Rightarrow> Inr (calculateBuffettScore (go_others dc s1), None))"
  using assms
  by (simp add: NewStock_def Let_def go_HistoricalFinaMainData_def BaseInfo_literal
        GetPrice_current)

lemma valuation_fields_kept:
  "RightPrice (calculateBuffettScore (go_others dc s)) = RightPrice s"
  "PriceSpace (calculateBuffettScore (go_others dc s)) = PriceSpace s"
  "LastYearRightPrice (calculateBuffettScore (go_others dc s)) = LastYearRightPrice s"
  by (simp_all add: calculateBuffettScore_kept go_others_kept)

lemma baseEPS_of_Fin:
  assumes "3 \<le> length es"
  shows "baseEPS_of (map Fin es) r = Inr (Fin (sum_list es / real (length es)))"
  using assms by (auto simp: baseEPS_of_def sum_float64_Fin float64_of_nat_def)

lemma datacenter_up_simps:
  "Now_Year (datacenter_up hf pe g) = 2024"
  "QueryHistoricalFinaMainData (datacenter_up hf pe g) c = Inr hf"
  "QueryHistoricalPEList (datacenter_up hf pe g) c = Inr [12, 15, 18]"
  "GetMidValue (datacenter_up hf pe g) l = Inr (Fin pe)"
  "GetAvgRevenueIncreasingRatioByYear (datacenter_up hf pe g) h y = Fin g"
  by (simp_all add: datacenter_up_def)

lemma annual_report_simps:
  "ReportYear (annual_report y e r) = y"
  "ReportType (annual_report y e r) = FinaReportTypeYear"
  "Epsjb (annual_report y e r) = Fin e"
  "Roejq (annual_report y e r) = Fin r"
  "Parentnetprofit (annual_report y e r) = Fin (1000 * e)"
  "Zcfzl (annual_report y e r) = Fin 40"
  by (simp_all add: annual_report_def)

lemma NewStock_returns:
  fixes dc :: "('row, 'sec::zero) datacenter"
  assumes "QueryHistoricalFinaMainData dc (Secucode b) = Inr hf" and "hf \<noteq> []"
    and "QueryHistoricalPEList dc (Secucode b) = Inr peList"
    and "GetMidValue dc peList = Inr m"
    and "resolve_reports dc hf = (Some r, r2, g1, g2)"
    and "lastYearBaseEPS_of (ValueList hf ValueListTypeEPS 3 FinaReportTypeYear) r2 = Inr lb"
  shows "\<exists>s. NewStock dc b = Inr (s, None)"
proof -
  obtain bs where "baseEPS_of (ValueList hf ValueListTypeEPS 3 FinaReportTypeYear) (Some r) = Inr bs"
    by (cases "baseEPS_of (ValueList hf ValueListTypeEPS 3 FinaReportTypeYear) (Some r)")
      (auto simp: baseEPS_of_def deref_Epsjb_def split: if_splits)
  then show ?thesis
    by (simp add: NewStock_valuation [OF assms(1-5)] rightPrice_steps_eq [OF _ assms(6)] Let_def)
qed

lemma spec_example_facts:
  "resolve_reports (datacenter_up spec_history 15 10) spec_history =
     (Some (annual_report 2023 2 25), Some (annual_report 2022 1 25), Fin 10, Fin 10)"
  "ValueList spec_history ValueListTypeEPS 3 FinaReportTypeYear = map Fin [2, 1, 0.8]"
  by (simp_all add: resolve_reports_def Let_def datacenter_up_simps GetReport_def ValueList_def
        spec_history_def annual_report_simps)


lemma NewStock_field:
  assumes "NewStock dc b = Inr (calculateBuffettScore (go_others dc s1), None)"
  shows "map_option RightPrice (stock_of (NewStock dc b)) = Some (RightPrice s1)"
    and "map_option PriceSpace (stock_of (NewStock dc b)) = Some (PriceSpace s1)"
    and "map_option LastYearRightPrice (stock_of (NewStock dc b)) = Some (LastYearRightPrice s1)"
  by (simp_all add: assms stock_of_def valuation_fields_kept)


section \<open>Values of the sub-scores\<close>

lemma in_bounds_Fin: "in_bounds lo hi (Fin v) \<longleftrightarrow> lo \<le> v \<and> v \<le> hi"
  by (auto simp: in_bounds_def fle_def)

lemma length_ValueList: "length (ValueList h vt n rt) \<le> n"
  by (simp add: ValueList_def)

lemma ROEScore_finite:
  assumes "ValueList (HistoricalFinaMainData s) ValueListTypeROE 5 FinaReportTypeYear = map Fin rs"
  shows "\<exists>v. ROEScore (BuffettScore (calculateROEScore s)) = Fin v \<and> v \<le> 20
             \<and> (0 \<le> sum_list rs / real (length rs) \<longrightarrow> 0 \<le> v)"
proof (cases "length rs < 5")
  case True
  then show ?thesis
    by (simp add: calculateROEScore_def assms Let_def)
next
  case False
  define a where "a = sum_list rs / real (length rs)"
  define base where "base = (if 20 \<le> a then 20 else if 15 \<le> a then 15 else a / 15 * 15)"
  from False have n: "length rs \<noteq> 0" by auto
  have avg: "fdiv (sum_float64 (map Fin rs)) (float64_of_nat (length rs)) = Fin a"
    using n by (simp add: sum_float64_Fin float64_of_nat_def a_def)
  have "ROEScore (BuffettScore (calculateROEScore s)) = Fin base
        \<or> ROEScore (BuffettScore (calculateROEScore s)) = Fin (base * 0.8)"
    using False n
    by (simp add: calculateROEScore_def assms Let_def avg fge_def fle_def base_def)
  moreover have "base \<le> 20" "0 \<le> a \<Longrightarrow> 0 \<le> base" "base * 0.8 \<le> 20"
    "0 \<le> a \<Longrightarrow> 0 \<le> base * 0.8"
    by (auto simp: base_def)
  ultimately show ?thesis
    unfolding a_def [symmetric] by auto
qed

lemma CashFlowScore_cases:
  "CashFlowScore (BuffettScore (calculateCashFlowScore s)) \<in> {Fin 0, Fin 5, Fin 10, Fin 15}"
  by (simp add: calculateCashFlowScore_def Let_def)

lemma growthCount_bound:
  "fst (foldl (profitGrowth_step pl) acc is) \<le> fst acc + length is"
proof (induction "is" arbitrary: acc)
  case Nil
  then show ?case by simp
next
  case (Cons i "is")
  have "fst (profitGrowth_step pl acc i) \<le> fst acc + 1"
    by (simp add: profitGrowth_step_def Let_def)
  with Cons [of "profitGrowth_step pl acc i"] show ?case by simp
qed

lemma ProfitGrowthScore_bound:
  "\<exists>v. ProfitGrowthScore (BuffettScore (calculateProfitGrowthScore s)) = Fin v
        \<and> 0 \<le> v \<and> v \<le> 12"
proof -
  let ?pl = "ValueList (HistoricalFinaMainData s) ValueListTypeNetProfit 5 FinaReportTypeYear"
  let ?acc = "foldl (profitGrowth_step ?pl) (0, Fin 0) [0 ..< length ?pl - 1]"
  have "fst ?acc \<le> length ?pl - 1"
    using growthCount_bound [of ?pl "(0, Fin 0)" "[0 ..< length ?pl - 1]"] by simp
  also have "\<dots> \<le> 4"
    using length_ValueList [of "HistoricalFinaMainData s" ValueListTypeNetProfit 5
        FinaReportTypeYear] by simp
  finally have gc: "real (fst ?acc) \<le> 4" by simp
  define c where "c = real (fst ?acc)"
  have "ProfitGrowthScore (BuffettScore (calculateProfitGrowthScore s)) = Fin 0
        \<or> ProfitGrowthScore (BuffettScore (calculateProfitGrowthScore s)) = Fin (c * 3)
        \<or> ProfitGrowthScore (BuffettScore (calculateProfitGrowthScore s)) = Fin (c * 3 * 0.8)"
    by (simp add: calculateProfitGrowthScore_def Let_def float64_of_nat_def c_def)
  moreover have "0 \<le> c" "c \<le> 4"
    using gc by (simp_all add: c_def)
  ultimately show ?thesis
    by auto
qed

lemma DebtRatioScore_cases:
  "DebtRatioScore (BuffettScore (calculateDebtRatioScore s)) \<in> {Fin 0, Fin 5, Fin 8, Fin 10}"
  by (simp add: calculateDebtRatioScore_def Let_def split: list.splits)

lemma MoatScore_cases:
  "MoatScore (BuffettScore (calculateMoatScore s)) \<in> {Fin 3, Fin 5, Fin 8}"
  by (simp add: calculateMoatScore_def Let_def math_Min_def)

lemma ValuationScore_cases:
  "ValuationScore (BuffettScore (calculateValuationScore s))
     \<in> {Fin 0, Fin 5, Fin 8, Fin 12, Fin 15}"
  by (simp add: calculateValuationScore_def Let_def math_Max_def)

lemma fixed_scores:
  "ManagementScore (BuffettScore (calculateManagementScore s)) = Fin 7.5"
  "RDScore (BuffettScore (calculateRDScore s)) = Fin 5"
  "DividendScore (BuffettScore (calculateDividendScore s)) = Fin 5"
  "RepurchaseScore (BuffettScore (calculateRepurchaseScore s)) = Fin 5"
  by (simp_all add: calculateManagementScore_def calculateRDScore_def calculateDividendScore_def
        calculateRepurchaseScore_def Let_def math_Min_def)

lemma fle_Fin: "fle (Fin a) (Fin b) \<longleftrightarrow> a \<le> b"
  by (auto simp: fle_def)


lemma ROEScore_steady:
  "ROEScore (BuffettScore (calculateBuffettScore (stock_with_history steady_history))) = Fin 20"
  by (simp add: calculateBuffettScore_fields calculateROEScore_def stock_with_history_def
        steady_history_def ValueList_def annual_report_simps Let_def sum_float64_def
        float64_of_nat_def fsub_def fge_def fle_def fgt_def)

lemma quality_stock_scores:
  "ROEScore (BuffettScore (calculateROEScore quality_stock)) = Fin 20"
  "CashFlowScore (BuffettScore (calculateCashFlowScore quality_stock)) = Fin 15"
  "ProfitGrowthScore (BuffettScore (calculateProfitGrowthScore quality_stock)) = Fin 12"
  "DebtRatioScore (BuffettScore (calculateDebtRatioScore quality_stock)) = Fin 8"
  "MoatScore (BuffettScore (calculateMoatScore quality_stock)) = Fin 8"
  "ValuationScore (BuffettScore (calculateValuationScore quality_stock)) = Fin 15"
proof -
  have hist: "HistoricalFinaMainData quality_stock = growth_history"
    and cash: "map CashflowData.NetcashOperate (HistoricalCashflowList quality_stock)
                 = [Fin 100, Fin 80, Fin 60]"
    and info: "Industry (BaseInfo quality_stock) = [CHR 0xE9, CHR 0x93, CHR 0xB6, CHR 0xE8, CHR 0xA1, CHR 0x8C]"
      "PE (BaseInfo quality_stock) = Fin 8" "PEG quality_stock = Fin 0.8"
    by (simp_all add: quality_stock_def BaseInfo_literal)
  show "ROEScore (BuffettScore (calculateROEScore quality_stock)) = Fin 20"
    by (simp add: calculateROEScore_def hist growth_history_def ValueList_def annual_report_simps
          Let_def sum_float64_def float64_of_nat_def fsub_def fge_def fle_def fgt_def)
  show "CashFlowScore (BuffettScore (calculateCashFlowScore quality_stock)) = Fin 15"
    by (simp add: calculateCashFlowScore_def quality_stock_def Let_def fgt_def)
  show "DebtRatioScore (BuffettScore (calculateDebtRatioScore quality_stock)) = Fin 8"
    by (simp add: calculateDebtRatioScore_def hist growth_history_def annual_report_simps Let_def)
  show "MoatScore (BuffettScore (calculateMoatScore quality_stock)) = Fin 8"
    by (simp add: calculateMoatScore_def info Let_def strong_moat_industries_def math_Min_def)
  show "ValuationScore (BuffettScore (calculateValuationScore quality_stock)) = Fin 15"
    by (simp add: calculateValuationScore_def info Let_def math_Max_def fgt_def)
  have pl: "ValueList growth_history ValueListTypeNetProfit 5 FinaReportTypeYear
      = [Fin 1464.1, Fin 1331, Fin 1210, Fin 1100, Fin 1000]"
    by (simp add: growth_history_def ValueList_def annual_report_simps)
  have upt: "[0 ..< 4] = [0, 1, 2, 3 :: nat]"
    by (simp add: upt_rec)
  have len: "length growth_history = 5"
    by (simp add: growth_history_def)
  show "ProfitGrowthScore (BuffettScore (calculateProfitGrowthScore quality_stock)) = Fin 12"
    by (simp add: calculateProfitGrowthScore_def hist len pl Let_def upt profitGrowth_step_def
          fgt_def fsub_def float64_of_nat_def)
qed


section \<open>PEG\<close>




section \<open>The reasonable price\<close>






section \<open>The fallback price\<close>

text \<open>
  Let the valuation reach its validation step: both histories are fetched, the median
  \<open>m\<close> of the PE history is available, the most recent annual report \<open>r\<close> exists, and
  the base EPS values of this year and of the prior year are computed.  Whenever the
  computed reasonable price is NaN, infinite or not positive, \<open>NewStock\<close> returns a
  stock and no error; the reasonable price of that stock is \<open>m\<close> times the EPS of \<open>r\<close>,
  with no growth adjustment and no explosive-growth multiplier, and the price gap is
  recomputed from this value and the current price.
\<close>

lemma fallback_price_when_reports_exist:
  fixes dc :: "('row, 'sec::zero) datacenter"
  assumes hf: "QueryHistoricalFinaMainData dc (Secucode b) = Inr hf" "hf \<noteq> []"
    and pe: "QueryHistoricalPEList dc (Secucode b) = Inr peList"
    and mid: "GetMidValue dc peList = Inr m"
    and res: "resolve_reports dc hf = (Some r, beforeLastYearReport, g, g')"
    and base: "baseEPS_of (ValueList hf ValueListTypeEPS 3 FinaReportTypeYear) (Some r)
                 = Inr baseEPS"
    and lb: "lastYearBaseEPS_of (ValueList hf ValueListTypeEPS 3 FinaReportTypeYear)
               beforeLastYearReport = Inr lastYearBaseEPS"
    and inv: "invalid_RightPrice
                (rightPrice_of m baseEPS (adjustedGrowthRatio_of g)
                   (explosiveGrowthAdjustment_of
                      (ValueList hf ValueListTypeEPS 3 FinaReportTypeYear)))"
  shows "\<exists>s. NewStock dc b = Inr (s, None)
           \<and> RightPrice s = fmul m (Epsjb r)
           \<and> PriceSpace s =
               fmul (fdiv (fsub (RightPrice s) (current_price b)) (current_price b)) (Fin 100)
           \<and> (\<forall>p e. m = Fin p \<and> Epsjb r = Fin e \<longrightarrow> RightPrice s = Fin (p * e))"
proof -
  let ?s0 = "(Stock_literal b)\<lparr>PEG := computePEG b, HistoricalFinaMainData := hf,
                                 HistoricalPEList := peList\<rparr>"
  let ?s1 = "?s0\<lparr>RightPrice := fmul m (Epsjb r),
      PriceSpace := priceSpace_of (fmul m (Epsjb r)) (current_price b),
      LastYearRightPrice := lastYearRightPrice_of m lastYearBaseEPS (adjustedGrowthRatio_of g')\<rparr>"
  have "NewStock dc b = Inr (calculateBuffettScore (go_others dc ?s1), None)"
    by (simp add: NewStock_valuation [OF hf pe mid res] rightPrice_steps_eq [OF base lb]
          Let_def inv)
  moreover have "RightPrice (calculateBuffettScore (go_others dc ?s1)) = fmul m (Epsjb r)"
    and "PriceSpace (calculateBuffettScore (go_others dc ?s1)) =
           priceSpace_of (fmul m (Epsjb r)) (current_price b)"
    by (simp_all add: valuation_fields_kept)
  ultimately show ?thesis
    by (auto simp: priceSpace_of_def)
qed

lemma deeper_loss_facts:
  "resolve_reports (datacenter_up deeper_loss_history 10 20) deeper_loss_history =
     (Some (annual_report 2023 (- 3) 25), Some (annual_report 2022 (- 1) 25), Fin 20, Fin 20)"
  "ValueList deeper_loss_history ValueListTypeEPS 3 FinaReportTypeYear
     = [Fin (- 3), Fin (- 1), Fin (- 1)]"
  by (simp_all add: resolve_reports_def Let_def datacenter_up_simps GetReport_def ValueList_def
        deeper_loss_history_def annual_report_simps)

lemma fallback_price_example:
  "explosiveGrowthAdjustment_of [Fin (- 3), Fin (- 1), Fin (- 1)] = Fin 0.7
   \<and> rightPrice_of (Fin 10) (Fin (- 5 / 3)) (adjustedGrowthRatio_of (Fin 20)) (Fin 0.7)
       = Fin (- 14)
   \<and> map_option RightPrice
        (stock_of (NewStock (datacenter_up deeper_loss_history 10 20) example_info))
       = Some (Fin (- 30))
   \<and> map_option PriceSpace
        (stock_of (NewStock (datacenter_up deeper_loss_history 10 20) example_info))
       = Some (Fin (- 220))"
proof -
  let ?dc = "datacenter_up deeper_loss_history 10 20"
  let ?eps = "[Fin (- 3), Fin (- 1), Fin (- 1)]"
  have ne: "deeper_loss_history \<noteq> []" by (simp add: deeper_loss_history_def)
  have m: "explosiveGrowthAdjustment_of ?eps = Fin 0.7"
    by (simp add: explosiveGrowthAdjustment_of_def fsub_def fgt_def)
  have b: "baseEPS_of (ValueList deeper_loss_history ValueListTypeEPS 3 FinaReportTypeYear)
      (Some (annual_report 2023 (- 3) 25)) = Inr (Fin (- 5 / 3))"
    using baseEPS_of_Fin [of "[- 3, - 1, - 1]"] by (simp add: deeper_loss_facts)
  have lb: "lastYearBaseEPS_of
      (ValueList deeper_loss_history ValueListTypeEPS 3 FinaReportTypeYear)
      (Some (annual_report 2022 (- 1) 25)) = Inr (Fin (- 1))"
    by (simp add: deeper_loss_facts lastYearBaseEPS_of_def)
  have rp: "rightPrice_of (Fin 10) (Fin (- 5 / 3)) (adjustedGrowthRatio_of (Fin 20)) (Fin 0.7)
      = Fin (- 14)"
    by (simp add: adjustedGrowthRatio_of_Fin rightPrice_of_Fin)
  have inv: "invalid_RightPrice
      (rightPrice_of (Fin 10) (Fin (- 5 / 3)) (adjustedGrowthRatio_of (Fin 20))
         (explosiveGrowthAdjustment_of
            (ValueList deeper_loss_history ValueListTypeEPS 3 FinaReportTypeYear)))"
    by (simp add: deeper_loss_facts m adjustedGrowthRatio_of_Fin rightPrice_of_Fin
          invalid_RightPrice_Fin)
  from fallback_price_when_reports_exist [of ?dc example_info deeper_loss_history "[12, 15, 18]" "Fin 10",
      OF _ ne _ _ deeper_loss_facts(1) b lb inv]
  obtain s where "NewStock ?dc example_info = Inr (s, None)"
    and "RightPrice s = Fin (- 30)" and "PriceSpace s = Fin (- 220)"
    by (auto simp: datacenter_up_simps annual_report_simps current_price_def example_info_def
          fsub_def)
  then show ?thesis
    using rp by (simp add: stock_of_def m)
qed


lemma one_year_loss_facts:
  "resolve_reports (datacenter_up one_year_loss_history 15 10) one_year_loss_history =
     (Some (annual_report 2023 (- 2) 25), None, Fin 10, Fin 10)"
  "ValueList one_year_loss_history ValueListTypeEPS 3 FinaReportTypeYear = [Fin (- 2)]"
  by (simp_all add: resolve_reports_def Let_def datacenter_up_simps GetReport_def ValueList_def
        one_year_loss_history_def annual_report_simps)

lemma stale_loss_facts:
  "resolve_reports (datacenter_up stale_loss_history 15 10) stale_loss_history =
     (None, Some (annual_report 2021 (- 1) 25), Fin 10, Fin 10)"
  "ValueList stale_loss_history ValueListTypeEPS 3 FinaReportTypeYear
     = [Fin (- 1), Fin (- 1), Fin (- 1)]"
  by (simp_all add: resolve_reports_def Let_def datacenter_up_simps GetReport_def ValueList_def
        stale_loss_history_def annual_report_simps)


text \<open>
  Claim C4 says that a computed reasonable price that is NaN, infinite or not positive is
  always replaced by the median PE times the EPS of the most recent annual report, and
  never becomes an error.  Two loss-making companies show the contrary.  The first has a
  single annual report: the computed price is -33, and the goroutine panics on the
  missing report of the year before, ahead of the validation.  The second has three annual
  reports, all older than the year before last: the computed price is -16.5, the
  validation finds it invalid, and the fallback itself panics on the missing report of
  last year.
\<close>

theorem invalid_price_not_replaced_without_report:
  "rightPrice_of (Fin 15) (Fin (- 2)) (adjustedGrowthRatio_of (Fin 10))
     (explosiveGrowthAdjustment_of [Fin (- 2)]) = Fin (- 33)
   \<and> invalid_RightPrice (Fin (- 33))
   \<and> NewStock (datacenter_up one_year_loss_history 15 10) example_info
       = Inl NilPointerDereference
   \<and> rightPrice_of (Fin 15) (Fin (- 1)) (adjustedGrowthRatio_of (Fin 10))
       (explosiveGrowthAdjustment_of [Fin (- 1), Fin (- 1), Fin (- 1)]) = Fin (- 16.5)
   \<and> invalid_RightPrice (Fin (- 16.5))
   \<and> NewStock (datacenter_up stale_loss_history 15 10) example_info
       = Inl NilPointerDereference"
proof -
  let ?dc1 = "datacenter_up one_year_loss_history 15 10"
  let ?dc3 = "datacenter_up stale_loss_history 15 10"
  have ne: "one_year_loss_history \<noteq> []" "stale_loss_history \<noteq> []"
    by (simp_all add: one_year_loss_history_def stale_loss_history_def)
  have m1: "explosiveGrowthAdjustment_of [Fin (- 2)] = Fin 1"
    and m3: "explosiveGrowthAdjustment_of [Fin (- 1), Fin (- 1), Fin (- 1)] = Fin 1"
    by (simp_all add: explosiveGrowthAdjustment_of_def fsub_def fgt_def)
  have rp1: "rightPrice_of (Fin 15) (Fin (- 2)) (adjustedGrowthRatio_of (Fin 10))
      (explosiveGrowthAdjustment_of [Fin (- 2)]) = Fin (- 33)"
    and rp3: "rightPrice_of (Fin 15) (Fin (- 1)) (adjustedGrowthRatio_of (Fin 10))
      (explosiveGrowthAdjustment_of [Fin (- 1), Fin (- 1), Fin (- 1)]) = Fin (- 16.5)"
    by (simp_all add: m1 m3 adjustedGrowthRatio_of_Fin rightPrice_of_Fin)
  have b1: "baseEPS_of [Fin (- 2)] (Some (annual_report 2023 (- 2) 25)) = Inr (Fin (- 2))"
    by (simp add: baseEPS_of_def deref_Epsjb_def annual_report_simps)
  have lb1: "lastYearBaseEPS_of [Fin (- 2)] None = Inl NilPointerDereference"
    by (simp add: lastYearBaseEPS_of_def deref_Epsjb_def)
  have p1: "NewStock ?dc1 example_info = Inl NilPointerDereference"
    by (simp add: NewStock_valuation [of ?dc1 example_info one_year_loss_history, OF _ ne(1) _ _
          one_year_loss_facts(1)] datacenter_up_simps one_year_loss_facts(2)
          rightPrice_steps_panic(2) [OF b1 lb1])
  have b3: "baseEPS_of [Fin (- 1), Fin (- 1), Fin (- 1)] None = Inr (Fin (- 1))"
    using baseEPS_of_Fin [of "[- 1, - 1, - 1]" None] by simp
  have lb3: "lastYearBaseEPS_of [Fin (- 1), Fin (- 1), Fin (- 1)]
      (Some (annual_report 2021 (- 1) 25)) = Inr (Fin (- 1))"
    by (simp add: lastYearBaseEPS_of_def)
  have p3: "NewStock ?dc3 example_info = Inl NilPointerDereference"
    using rp3
    by (simp add: NewStock_valuation [of ?dc3 example_info stale_loss_history, OF _ ne(2) _ _
          stale_loss_facts(1)] datacenter_up_simps stale_loss_facts(2)
          rightPrice_steps_eq [OF b3 lb3] Let_def invalid_RightPrice_Fin)
  show ?thesis
    using rp1 rp3 p1 p3 by (simp add: invalid_RightPrice_Fin)
qed

section \<open>The prior-year reasonable price\<close>

text \<open>
  Claim C9, as amended.  With three annual EPS values \<open>e0\<close>, \<open>e1\<close>, \<open>e2\<close> (newest
  first), the prior-year reasonable price is the median PE times the mean of the two
  values \<open>e1\<close> and \<open>e2\<close>, times one plus the prior-year average revenue growth rate
  capped at 50 percent; no explosive-growth multiplier is applied.
\<close>

theorem prior_year_price_formula:
  fixes dc :: "('row, 'sec::zero) datacenter"
  assumes ret: "NewStock dc b = Inr (s, err)"
    and hf: "QueryHistoricalFinaMainData dc (Secucode b) = Inr hf" "hf \<noteq> []"
    and pe: "QueryHistoricalPEList dc (Secucode b) = Inr peList"
    and mid: "GetMidValue dc peList = Inr (Fin p)"
    and res: "resolve_reports dc hf = (lastYearReport, beforeLastYearReport, g, Fin g')"
    and eps: "ValueList hf ValueListTypeEPS 3 FinaReportTypeYear = [Fin e0, Fin e1, Fin e2]"
  shows "LastYearRightPrice s = Fin (p * ((e1 + e2) / 2) * (1 + min g' 50 / 100))"
proof -
  let ?eps = "[Fin e0, Fin e1, Fin e2]"
  let ?s0 = "(Stock_literal b)\<lparr>PEG := computePEG b, HistoricalFinaMainData := hf,
                                 HistoricalPEList := peList\<rparr>"
  from ret obtain s1 where
    s1: "rightPrice_steps (Fin p) ?eps lastYearReport beforeLastYearReport g (Fin g')
           (current_price b) ?s0 = Inr s1"
    and s: "s = calculateBuffettScore (go_others dc s1)"
    by (auto simp: NewStock_valuation [OF hf pe mid res] eps split: sum.splits)
  obtain bs where b: "baseEPS_of ?eps lastYearReport = Inr bs"
    by (simp add: baseEPS_of_def)
  have lb: "lastYearBaseEPS_of ?eps beforeLastYearReport = Inr (Fin ((e1 + e2) / 2))"
    by (simp add: lastYearBaseEPS_of_def)
  from s1 have "LastYearRightPrice s1 =
      lastYearRightPrice_of (Fin p) (Fin ((e1 + e2) / 2)) (adjustedGrowthRatio_of (Fin g'))"
    by (auto simp: rightPrice_steps_eq [OF b lb] Let_def split: if_splits option.splits)
  then show ?thesis
    by (simp add: s valuation_fields_kept adjustedGrowthRatio_of_Fin lastYearRightPrice_of_Fin)
qed

theorem prior_year_price_formula_witness:
  "map_option LastYearRightPrice
     (stock_of (NewStock (datacenter_up spec_history 15 10) example_info)) = Some (Fin 14.85)"
proof -
  let ?dc = "datacenter_up spec_history 15 10"
  have ne: "spec_history \<noteq> []" by (simp add: spec_history_def)
  have lb: "lastYearBaseEPS_of (ValueList spec_history ValueListTypeEPS 3 FinaReportTypeYear)
      (Some (annual_report 2022 1 25)) = Inr (Fin 0.9)"
    by (simp add: spec_example_facts lastYearBaseEPS_of_def)
  obtain s where s: "NewStock ?dc example_info = Inr (s, None)"
    using NewStock_returns [of ?dc example_info spec_history, OF _ ne _ _ spec_example_facts(1) lb]
    by (auto simp: datacenter_up_simps)
  have "LastYearRightPrice s = Fin 14.85"
    using prior_year_price_formula [of ?dc example_info s None spec_history "[12, 15, 18]" 15
        "Some (annual_report 2023 2 25)" "Some (annual_report 2022 1 25)" "Fin 10" 10 2 1 "0.8",
        OF s _ ne _ _ spec_example_facts(1)]
    by (simp add: datacenter_up_simps spec_example_facts(2))
  then show ?thesis by (simp add: s stock_of_def)
qed

lemma four_year_facts:
  "resolve_reports (datacenter_up four_year_history 10 0) four_year_history =
     (Some (annual_report 2023 4 25), Some (annual_report 2022 2 25), Fin 0, Fin 0)"
  "ValueList four_year_history ValueListTypeEPS 3 FinaReportTypeYear = [Fin 4, Fin 2, Fin 1]"
  "ValueList four_year_history ValueListTypeEPS 4 FinaReportTypeYear = map Fin [4, 2, 1, 3]"
  by (simp_all add: resolve_reports_def Let_def datacenter_up_simps GetReport_def ValueList_def
        four_year_history_def annual_report_simps)


text \<open>
  As stated, claim C9 takes the mean of the second to fourth most recent annual EPS
  values.  With annual EPS 4, 2, 1, 3, median PE 10 and no growth that is 20; the stock
  carries 15, the median times the mean of 2 and 1.
\<close>

theorem prior_year_price_uses_two_years:
  "map_option LastYearRightPrice
     (stock_of (NewStock (datacenter_up four_year_history 10 0) example_info)) = Some (Fin 15)
   \<and> ValueList four_year_history ValueListTypeEPS 4 FinaReportTypeYear = map Fin [4, 2, 1, 3]
   \<and> prior_year_price_as_claimed 10 [4, 2, 1, 3] 0 = 20
   \<and> Fin 15 \<noteq> Fin (prior_year_price_as_claimed 10 [4, 2, 1, 3] 0)"
proof -
  let ?dc = "datacenter_up four_year_history 10 0"
  have ne: "four_year_history \<noteq> []" by (simp add: four_year_history_def)
  have m: "explosiveGrowthAdjustment_of [Fin 4, Fin 2, Fin 1] = Fin 1"
    by (simp add: explosiveGrowthAdjustment_of_def fsub_def fgt_def)
  have b: "baseEPS_of [Fin 4, Fin 2, Fin 1] (Some (annual_report 2023 4 25)) = Inr (Fin (7 / 3))"
    using baseEPS_of_Fin [of "[4, 2, 1]"] by simp
  have lb: "lastYearBaseEPS_of [Fin 4, Fin 2, Fin 1] (Some (annual_report 2022 2 25))
      = Inr (Fin (3 / 2))"
    by (simp add: lastYearBaseEPS_of_def)
  have "NewStock ?dc example_info =
      Inr (calculateBuffettScore (go_others ?dc
        ((Stock_literal example_info)\<lparr>PEG := computePEG example_info,
           HistoricalFinaMainData := four_year_history, HistoricalPEList := [12, 15, 18],
           RightPrice := Fin (70 / 3),
           PriceSpace := priceSpace_of (Fin (70 / 3)) (current_price example_info),
           LastYearRightPrice := Fin 15\<rparr>)), None)"
    by (simp add: NewStock_valuation [of ?dc example_info four_year_history, OF _ ne _ _
          four_year_facts(1)] datacenter_up_simps four_year_facts(2)
          rightPrice_steps_eq [OF b lb] Let_def m adjustedGrowthRatio_of_Fin rightPrice_of_Fin
          lastYearRightPrice_of_Fin invalid_RightPrice_Fin)
  from NewStock_field(3) [OF this] show ?thesis
    by (simp add: four_year_facts(3) prior_year_price_as_claimed_def)
qed

section \<open>The explosive-growth multiplier\<close>





section \<open>The management sub-score\<close>

text \<open>
  Claim C7, as amended.  The management sub-score of every score computation is 7.5,
  whatever the length of the fundamentals history: the last assignment to \<open>score\<close>
  in \<open>calculateManagementScore\<close> is unconditional.
\<close>

theorem management_score_fixed:
  "ManagementScore (BuffettScore (calculateBuffettScore s)) = Fin 7.5"
  by (simp add: calculateBuffettScore_fields calculateManagementScore_def Let_def math_Min_def)

text \<open>
  As stated, claim C7 asks for a strictly lower value when the history has fewer than
  three entries.  An empty history and a history of three annual reports get the same
  value.
\<close>

theorem management_score_not_lower:
  "length (HistoricalFinaMainData (stock_with_history [])) < 3
   \<and> 3 \<le> length (HistoricalFinaMainData (stock_with_history
            [annual_report 2023 2 25, annual_report 2022 1 25, annual_report 2021 0.8 25]))
   \<and> ManagementScore (BuffettScore (calculateBuffettScore (stock_with_history []))) = Fin 7.5
   \<and> ManagementScore (BuffettScore (calculateBuffettScore (stock_with_history
            [annual_report 2023 2 25, annual_report 2022 1 25, annual_report 2021 0.8 25])))
       = Fin 7.5
   \<and> \<not> flt (ManagementScore (BuffettScore (calculateBuffettScore (stock_with_history []))))
          (ManagementScore (BuffettScore (calculateBuffettScore (stock_with_history
            [annual_report 2023 2 25, annual_report 2022 1 25, annual_report 2021 0.8 25]))))"
  by (simp add: calculateBuffettScore_fields calculateManagementScore_def Let_def math_Min_def
        stock_with_history_def)

section \<open>Bounds of the sub-scores and the total\<close>

text \<open>
  Claim C6, as amended.  For finite return-on-equity values in the last five annual
  reports: the ROE sub-score is at most 20, and it lies in 0 to 20 when the mean of those
  values is not negative; the other nine sub-scores lie in their bounds (cash flow 0 to 15,
  profit growth 0 to 15, leverage 0 to 10, moat 0 to 10, management 0 to 10, valuation
  0 to 15, research, dividend and buyback 0 to 5 each); and the total is the sum of the ten
  sub-scores.
\<close>

theorem sub_scores_bounded_and_total_is_sum:
  assumes roe: "ValueList (HistoricalFinaMainData s) ValueListTypeROE 5 FinaReportTypeYear
                  = map Fin rs"
  shows "fle (ROEScore (BuffettScore (calculateBuffettScore s))) (Fin 20)
     \<and> (0 \<le> sum_list rs / real (length rs) \<longrightarrow>
          in_bounds 0 20 (ROEScore (BuffettScore (calculateBuffettScore s))))
     \<and> in_bounds 0 15 (CashFlowScore (BuffettScore (calculateBuffettScore s)))
     \<and> in_bounds 0 15 (ProfitGrowthScore (BuffettScore (calculateBuffettScore s)))
     \<and> in_bounds 0 10 (DebtRatioScore (BuffettScore (calculateBuffettScore s)))
     \<and> in_bounds 0 10 (MoatScore (BuffettScore (calculateBuffettScore s)))
     \<and> in_bounds 0 10 (ManagementScore (BuffettScore (calculateBuffettScore s)))
     \<and> in_bounds 0 15 (ValuationScore (BuffettScore (calculateBuffettScore s)))
     \<and> in_bounds 0 5 (RDScore (BuffettScore (calculateBuffettScore s)))
     \<and> in_bounds 0 5 (DividendScore (BuffettScore (calculateBuffettScore s)))
     \<and> in_bounds 0 5 (RepurchaseScore (BuffettScore (calculateBuffettScore s)))
     \<and> (\<exists>r c p d m g v x y z.
           ROEScore (BuffettScore (calculateBuffettScore s)) = Fin r
         \<and> CashFlowScore (BuffettScore (calculateBuffettScore s)) = Fin c
         \<and> ProfitGrowthScore (BuffettScore (calculateBuffettScore s)) = Fin p
         \<and> DebtRatioScore (BuffettScore (calculateBuffettScore s)) = Fin d
         \<and> MoatScore (BuffettScore (calculateBuffettScore s)) = Fin m
         \<and> ManagementScore (BuffettScore (calculateBuffettScore s)) = Fin g
         \<and> ValuationScore (BuffettScore (calculateBuffettScore s)) = Fin v
         \<and> RDScore (BuffettScore (calculateBuffettScore s)) = Fin x
         \<and> DividendScore (BuffettScore (calculateBuffettScore s)) = Fin y
         \<and> RepurchaseScore (BuffettScore (calculateBuffettScore s)) = Fin z
         \<and> TotalScore (BuffettScore (calculateBuffettScore s))
             = Fin (r + c + p + d + m + g + v + x + y + z))"
proof -
  let ?b = "BuffettScore (calculateBuffettScore s)"
  obtain r where r: "ROEScore ?b = Fin r" "r \<le> 20"
    "0 \<le> sum_list rs / real (length rs) \<longrightarrow> 0 \<le> r"
    using ROEScore_finite [OF roe] by (auto simp: calculateBuffettScore_fields)
  obtain c where c: "CashFlowScore ?b = Fin c" "0 \<le> c" "c \<le> 15"
    using CashFlowScore_cases [of s] by (auto simp: calculateBuffettScore_fields)
  obtain p where p: "ProfitGrowthScore ?b = Fin p" "0 \<le> p" "p \<le> 12"
    using ProfitGrowthScore_bound [of s] by (auto simp: calculateBuffettScore_fields)
  obtain d where d: "DebtRatioScore ?b = Fin d" "0 \<le> d" "d \<le> 10"
    using DebtRatioScore_cases [of s] by (auto simp: calculateBuffettScore_fields)
  obtain m where m: "MoatScore ?b = Fin m" "0 \<le> m" "m \<le> 8"
    using MoatScore_cases [of s] by (auto simp: calculateBuffettScore_fields)
  obtain v where v: "ValuationScore ?b = Fin v" "0 \<le> v" "v \<le> 15"
    using ValuationScore_cases [of s] by (auto simp: calculateBuffettScore_fields)
  have f: "ManagementScore ?b = Fin 7.5" "RDScore ?b = Fin 5" "DividendScore ?b = Fin 5"
    "RepurchaseScore ?b = Fin 5"
    by (simp_all add: calculateBuffettScore_fields fixed_scores)
  have t: "TotalScore ?b = Fin (r + c + p + d + m + 7.5 + v + 5 + 5 + 5)"
    by (simp add: calculateBuffettScore_total totalScore_def r c p d m v f)
  have bounds: "fle (ROEScore ?b) (Fin 20)"
    "0 \<le> sum_list rs / real (length rs) \<longrightarrow> in_bounds 0 20 (ROEScore ?b)"
    "in_bounds 0 15 (CashFlowScore ?b)" "in_bounds 0 15 (ProfitGrowthScore ?b)"
    "in_bounds 0 10 (DebtRatioScore ?b)" "in_bounds 0 10 (MoatScore ?b)"
    "in_bounds 0 10 (ManagementScore ?b)" "in_bounds 0 15 (ValuationScore ?b)"
    "in_bounds 0 5 (RDScore ?b)" "in_bounds 0 5 (DividendScore ?b)"
    "in_bounds 0 5 (RepurchaseScore ?b)"
    using r c p d m v by (simp_all add: f in_bounds_Fin fle_Fin)
  have sum: "\<exists>r c p d m g v x y z.
           ROEScore ?b = Fin r \<and> CashFlowScore ?b = Fin c \<and> ProfitGrowthScore ?b = Fin p
         \<and> DebtRatioScore ?b = Fin d \<and> MoatScore ?b = Fin m \<and> ManagementScore ?b = Fin g
         \<and> ValuationScore ?b = Fin v \<and> RDScore ?b = Fin x \<and> DividendScore ?b = Fin y
         \<and> RepurchaseScore ?b = Fin z
         \<and> TotalScore ?b = Fin (r + c + p + d + m + g + v + x + y + z)"
    using r(1) c(1) p(1) d(1) m(1) v(1) f t by blast
  from bounds sum show ?thesis by blast
qed


theorem sub_scores_bounded_and_total_is_sum_witness:
  "0 \<le> sum_list [25, 25, 25, 25, 25] / real (length [25, 25, 25, 25, 25 :: real])
   \<and> in_bounds 0 20 (ROEScore (BuffettScore (calculateBuffettScore
        (stock_with_history steady_history))))
   \<and> in_bounds 0 15 (ProfitGrowthScore (BuffettScore (calculateBuffettScore
        (stock_with_history steady_history))))
   \<and> in_bounds 0 10 (DebtRatioScore (BuffettScore (calculateBuffettScore
        (stock_with_history steady_history))))"
proof -
  have "ValueList (HistoricalFinaMainData (stock_with_history steady_history))
      ValueListTypeROE 5 FinaReportTypeYear = map Fin [25, 25, 25, 25, 25]"
    by (simp add: stock_with_history_def steady_history_def ValueList_def annual_report_simps)
  from sub_scores_bounded_and_total_is_sum [OF this] show ?thesis
    by simp
qed


text \<open>
  As stated, claim C6 bounds the ROE sub-score below by 0 and the total above by 100.  A
  company with a return on equity of -10 percent in each of five years gets an ROE
  sub-score of -10, and \<open>quality_stock\<close> gets a total of 100.5.
\<close>

theorem ROE_score_negative_for_losses:
  "ROEScore (BuffettScore (calculateBuffettScore (stock_with_history roe_loss_history)))
     = Fin (- 10)
   \<and> \<not> in_bounds 0 20
        (ROEScore (BuffettScore (calculateBuffettScore (stock_with_history roe_loss_history))))
   \<and> TotalScore (BuffettScore (calculateBuffettScore quality_stock)) = Fin 100.5
   \<and> \<not> fle (TotalScore (BuffettScore (calculateBuffettScore quality_stock))) (Fin 100)"
proof -
  have "ROEScore (BuffettScore (calculateBuffettScore (stock_with_history roe_loss_history)))
      = Fin (- 10)"
    by (simp add: calculateBuffettScore_fields calculateROEScore_def stock_with_history_def
        roe_loss_history_def ValueList_def annual_report_simps Let_def sum_float64_def
        float64_of_nat_def fsub_def fge_def fle_def fgt_def)
  moreover have "TotalScore (BuffettScore (calculateBuffettScore quality_stock)) = Fin 100.5"
    by (simp add: calculateBuffettScore_total totalScore_def calculateBuffettScore_fields
          quality_stock_scores fixed_scores)
  ultimately show ?thesis
    by (simp add: in_bounds_Fin fle_Fin)
qed

section \<open>Sorting by ROE weight and by price gap\<close>











section \<open>Cash flows\<close>

lemma free_cash_flow_abs:
  "(if flt i (Fin 0) then fadd a i else fsub a i) = fsub a (math_Abs i)"
  by (cases i; cases a) (simp_all add: fsub_def)

text \<open>
  Claim C10.  In every stock that \<open>NewStock\<close> returns with a cash-flow history that is
  not empty, the operating, investing and financing net cash flows are those of the first
  (most recent) cash-flow report, and the free cash flow is the operating net cash flow
  minus the absolute value of the investing one: operating plus investing when the
  investing net cash flow is negative, operating minus investing otherwise.
\<close>

theorem cashflow_fields_from_latest_report:
  assumes "NewStock dc b = Inr (s, err)"
    and "HistoricalCashflowList s = cf # cfs"
  shows "NetcashOperate s = CashflowData.NetcashOperate cf
         \<and> NetcashInvest s = CashflowData.NetcashInvest cf
         \<and> NetcashFinance s = CashflowData.NetcashFinance cf
         \<and> NetcashFree s =
             fsub (CashflowData.NetcashOperate cf) (math_Abs (CashflowData.NetcashInvest cf))
         \<and> NetcashFree s =
             (if flt (CashflowData.NetcashInvest cf) (Fin 0)
              then fadd (CashflowData.NetcashOperate cf) (CashflowData.NetcashInvest cf)
              else fsub (CashflowData.NetcashOperate cf) (CashflowData.NetcashInvest cf))"
proof -
  from assms(1) obtain s1 p where
    s1: "go_HistoricalFinaMainData dc p ((Stock_literal b)\<lparr>PEG := computePEG b\<rparr>) = Inr s1"
    and s: "s = calculateBuffettScore (go_others dc s1)"
    using NewStock_Inr by blast
  note shape = go_HistoricalFinaMainData_shape [OF s1]
  have empty: "HistoricalCashflowList s1 = []"
    by (subst shape) (simp add: Stock_literal_def)
  have code: "Secucode (BaseInfo s1) = Secucode b"
    by (subst shape) (simp add: BaseInfo_literal)
  from assms(2) have q: "QueryFinaCashflowData dc (Secucode b) = Inr (cf # cfs)"
    by (simp add: s calculateBuffettScore_kept go_others_cashflow code empty split: sum.splits)
  show ?thesis
    by (simp add: s calculateBuffettScore_kept go_others_cashflow code q free_cash_flow_abs)
qed

theorem cashflow_fields_from_latest_report_witness:
  "map_option HistoricalCashflowList
     (stock_of (NewStock (datacenter_up spec_history 15 10) example_info)) \<noteq> Some []
   \<and> map_option NetcashOperate
        (stock_of (NewStock (datacenter_up spec_history 15 10) example_info)) = Some (Fin 100)
   \<and> map_option NetcashInvest
        (stock_of (NewStock (datacenter_up spec_history 15 10) example_info)) = Some (Fin (- 30))
   \<and> map_option NetcashFinance
        (stock_of (NewStock (datacenter_up spec_history 15 10) example_info)) = Some (Fin (- 20))
   \<and> map_option NetcashFree
        (stock_of (NewStock (datacenter_up spec_history 15 10) example_info)) = Some (Fin 70)"
proof -
  let ?dc = "datacenter_up spec_history 15 10"
  have ne: "spec_history \<noteq> []" by (simp add: spec_history_def)
  have lb: "lastYearBaseEPS_of (ValueList spec_history ValueListTypeEPS 3 FinaReportTypeYear)
      (Some (annual_report 2022 1 25)) = Inr (Fin 0.9)"
    by (simp add: spec_example_facts lastYearBaseEPS_of_def)
  obtain s where s: "NewStock ?dc example_info = Inr (s, None)"
    using NewStock_returns [of ?dc example_info spec_history, OF _ ne _ _ spec_example_facts(1) lb]
    by (auto simp: datacenter_up_simps)
  have list: "HistoricalCashflowList s =
      \<lparr>CashflowData.NetcashOperate = Fin 100, CashflowData.NetcashInvest = Fin (- 30),
       CashflowData.NetcashFinance = Fin (- 20)\<rparr>
      # [\<lparr>CashflowData.NetcashOperate = Fin 80, CashflowData.NetcashInvest = Fin 10,
          CashflowData.NetcashFinance = Fin 5\<rparr>,
         \<lparr>CashflowData.NetcashOperate = Fin (- 5), CashflowData.NetcashInvest = Fin (- 40),
          CashflowData.NetcashFinance = Fin 60\<rparr>]"
    by (simp add: NewStock_cashflow_list [OF s] datacenter_up_def)
  from cashflow_fields_from_latest_report [OF s list] show ?thesis
    by (simp add: s stock_of_def list fsub_def)
qed

section \<open>Failures of providers and panics\<close>

text \<open>
  A fetch that fails never aborts \<open>NewStock\<close>: it can only panic after both histories
  of the first goroutine were fetched and the median of the PE history was computed.
\<close>

lemma go_HistoricalFinaMainData_Inl:
  assumes "go_HistoricalFinaMainData dc price s = Inl p"
  shows "\<exists>hf peList m.
           QueryHistoricalFinaMainData dc (Secucode (BaseInfo s)) = Inr hf \<and> hf \<noteq> []
           \<and> QueryHistoricalPEList dc (Secucode (BaseInfo s)) = Inr peList
           \<and> GetMidValue dc peList = Inr m"
  using assms
  by (auto simp: go_HistoricalFinaMainData_def Let_def split: sum.splits if_splits prod.splits)

lemma NewStock_panic_needs_fetched_histories:
  assumes "NewStock dc b = Inl p"
  shows "\<exists>hf peList m.
           QueryHistoricalFinaMainData dc (Secucode b) = Inr hf \<and> hf \<noteq> []
           \<and> QueryHistoricalPEList dc (Secucode b) = Inr peList
           \<and> GetMidValue dc peList = Inr m"
proof -
  from assms obtain price where
    "go_HistoricalFinaMainData dc price ((Stock_literal b)\<lparr>PEG := computePEG b\<rparr>) = Inl p"
    by (auto simp: NewStock_def Let_def BaseInfo_literal split: sum.splits)
  from go_HistoricalFinaMainData_Inl [OF this] show ?thesis
    by (simp add: BaseInfo_literal)
qed

text \<open>
  When \<open>NewStock\<close> returns, the error is \<open>nil\<close>, and each section written by one of
  the eleven other goroutines holds what its provider answered, or its zero value when the
  fetch failed.  When the fundamentals fetch fails, the sections of the first goroutine
  are zero.
\<close>

lemma go_others_sections:
  "ValuationMap (go_others dc s) =
     (case QueryValuationStatus dc (Secucode (BaseInfo s)) of
        Inl e \<Rightarrow> ValuationMap s | Inr v \<Rightarrow> v)"
  "HistoricalPrice (go_others dc s) =
     (case QueryHistoricalStockPrice dc (Secucode (BaseInfo s)) of
        Inl e \<Rightarrow> HistoricalPrice s | Inr v \<Rightarrow> v)"
  "CompanyProfile (go_others dc s) =
     (case QueryCompanyProfile dc (Secucode (BaseInfo s)) of
        Inl e \<Rightarrow> CompanyProfile s | Inr v \<Rightarrow> v)"
  "OrgRatingList (go_others dc s) =
     (case QueryOrgRating dc (Secucode (BaseInfo s)) of
        Inl e \<Rightarrow> OrgRatingList s | Inr v \<Rightarrow> v)"
  "ProfitPredictList (go_others dc s) =
     (case QueryProfitPredict dc (Secucode (BaseInfo s)) of
        Inl e \<Rightarrow> ProfitPredictList s | Inr v \<Rightarrow> v)"
  "JZPG (go_others dc s) =
     (case QueryJiaZhiPingGu dc (Secucode (BaseInfo s)) of
        Inl e \<Rightarrow> JZPG s | Inr v \<Rightarrow> v)"
  "HistoricalGincomeList (go_others dc s) =
     (case QueryFinaGincomeData dc (Secucode (BaseInfo s)) of
        Inl e \<Rightarrow> HistoricalGincomeList s | Inr v \<Rightarrow> v)"
  "FreeHoldersTop10 (go_others dc s) =
     (case QueryFreeHolders dc (Secucode (BaseInfo s)) of
        Inl e \<Rightarrow> FreeHoldersTop10 s | Inr v \<Rightarrow> v)"
  "MainMoneyNetInflows (go_others dc s) =
     (case QueryMainMoneyNetInflows dc (Secucode (BaseInfo s)) of
        Inl e \<Rightarrow> MainMoneyNetInflows s | Inr v \<Rightarrow> v)"
  by (simp_all add: go_others_def go_eqs cong del: sum.case_cong_weak list.case_cong_weak)

lemma NewStock_sections:
  fixes dc :: "('row, 'sec::zero) datacenter"
  assumes "NewStock dc b = Inr (s, err)"
  shows "err = None"
    and "ValuationMap s =
           (case QueryValuationStatus dc (Secucode b) of Inl e \<Rightarrow> Map.empty | Inr v \<Rightarrow> v)"
    and "HistoricalPrice s =
           (case QueryHistoricalStockPrice dc (Secucode b) of
              Inl e \<Rightarrow> \<lparr>Date = [], Price = []\<rparr> | Inr v \<Rightarrow> v)"
    and "CompanyProfile s =
           (case QueryCompanyProfile dc (Secucode b) of Inl e \<Rightarrow> 0 | Inr v \<Rightarrow> v)"
    and "OrgRatingList s =
           (case QueryOrgRating dc (Secucode b) of Inl e \<Rightarrow> [] | Inr v \<Rightarrow> v)"
    and "ProfitPredictList s =
           (case QueryProfitPredict dc (Secucode b) of Inl e \<Rightarrow> [] | Inr v \<Rightarrow> v)"
    and "JZPG s = (case QueryJiaZhiPingGu dc (Secucode b) of Inl e \<Rightarrow> 0 | Inr v \<Rightarrow> v)"
    and "HistoricalGincomeList s =
           (case QueryFinaGincomeData dc (Secucode b) of Inl e \<Rightarrow> [] | Inr v \<Rightarrow> v)"
    and "HistoricalCashflowList s =
           (case QueryFinaCashflowData dc (Secucode b) of Inl e \<Rightarrow> [] | Inr v \<Rightarrow> v)"
    and "FreeHoldersTop10 s =
           (case QueryFreeHolders dc (Secucode b) of Inl e \<Rightarrow> [] | Inr v \<Rightarrow> v)"
    and "MainMoneyNetInflows s =
           (case QueryMainMoneyNetInflows dc (Secucode b) of Inl e \<Rightarrow> [] | Inr v \<Rightarrow> v)"
    and "QueryHistoricalFinaMainData dc (Secucode b) = Inl e \<Longrightarrow>
           HistoricalFinaMainData s = [] \<and> HistoricalPEList s = [] \<and> RightPrice s = Fin 0
           \<and> PriceSpace s = Fin 0 \<and> LastYearRightPrice s = Fin 0"
proof -
  obtain s1 p where
    s1: "go_HistoricalFinaMainData dc p ((Stock_literal b)\<lparr>PEG := computePEG b\<rparr>) = Inr s1"
    and s: "s = calculateBuffettScore (go_others dc s1)" and err: "err = None"
    using NewStock_Inr [OF assms] by auto
  note shape = go_HistoricalFinaMainData_shape [OF s1]
  have code: "Secucode (BaseInfo s1) = Secucode b"
    by (subst shape) (simp add: BaseInfo_literal)
  have zero: "ValuationMap s1 = Map.empty" "HistoricalPrice s1 = \<lparr>Date = [], Price = []\<rparr>"
    "CompanyProfile s1 = 0" "OrgRatingList s1 = []" "ProfitPredictList s1 = []" "JZPG s1 = 0"
    "HistoricalGincomeList s1 = []" "FreeHoldersTop10 s1 = []" "MainMoneyNetInflows s1 = []"
    by (subst shape, simp add: Stock_literal_def)+
  show "err = None" by (rule err)
  show "ValuationMap s =
      (case QueryValuationStatus dc (Secucode b) of Inl e \<Rightarrow> Map.empty | Inr v \<Rightarrow> v)"
    by (simp add: s calculateBuffettScore_eq Let_def go_others_sections code zero
          split: sum.splits)
  show "HistoricalPrice s =
      (case QueryHistoricalStockPrice dc (Secucode b) of
         Inl e \<Rightarrow> \<lparr>Date = [], Price = []\<rparr> | Inr v \<Rightarrow> v)"
    by (simp add: s calculateBuffettScore_eq Let_def go_others_sections code zero
          split: sum.splits)
  show "CompanyProfile s =
      (case QueryCompanyProfile dc (Secucode b) of Inl e \<Rightarrow> 0 | Inr v \<Rightarrow> v)"
    by (simp add: s calculateBuffettScore_eq Let_def go_others_sections code zero
          split: sum.splits)
  show "OrgRatingList s =
      (case QueryOrgRating dc (Secucode b) of Inl e \<Rightarrow> [] | Inr v \<Rightarrow> v)"
    by (simp add: s calculateBuffettScore_eq Let_def go_others_sections code zero
          split: sum.splits)
  show "ProfitPredictList s =
      (case QueryProfitPredict dc (Secucode b) of Inl e \<Rightarrow> [] | Inr v \<Rightarrow> v)"
    by (simp add: s calculateBuffettScore_eq Let_def go_others_sections code zero
          split: sum.splits)
  show "JZPG s = (case QueryJiaZhiPingGu dc (Secucode b) of Inl e \<Rightarrow> 0 | Inr v \<Rightarrow> v)"
    by (simp add: s calculateBuffettScore_eq Let_def go_others_sections code zero
          split: sum.splits)
  show "HistoricalGincomeList s =
      (case QueryFinaGincomeData dc (Secucode b) of Inl e \<Rightarrow> [] | Inr v \<Rightarrow> v)"
    by (simp add: s calculateBuffettScore_eq Let_def go_others_sections code zero
          split: sum.splits)
  show "HistoricalCashflowList s =
      (case QueryFinaCashflowData dc (Secucode b) of Inl e \<Rightarrow> [] | Inr v \<Rightarrow> v)"
    by (rule NewStock_cashflow_list [OF assms])
  show "FreeHoldersTop10 s =
      (case QueryFreeHolders dc (Secucode b) of Inl e \<Rightarrow> [] | Inr v \<Rightarrow> v)"
    by (simp add: s calculateBuffettScore_eq Let_def go_others_sections code zero
          split: sum.splits)
  show "MainMoneyNetInflows s =
      (case QueryMainMoneyNetInflows dc (Secucode b) of Inl e \<Rightarrow> [] | Inr v \<Rightarrow> v)"
    by (simp add: s calculateBuffettScore_eq Let_def go_others_sections code zero
          split: sum.splits)
  show "HistoricalFinaMainData s = [] \<and> HistoricalPEList s = [] \<and> RightPrice s = Fin 0
           \<and> PriceSpace s = Fin 0 \<and> LastYearRightPrice s = Fin 0"
    if "QueryHistoricalFinaMainData dc (Secucode b) = Inl e"
  proof -
    from s1 that have "s1 = (Stock_literal b)\<lparr>PEG := computePEG b\<rparr>"
      by (simp add: go_HistoricalFinaMainData_def BaseInfo_literal)
    then show ?thesis
      by (simp add: s calculateBuffettScore_kept go_others_kept Stock_literal_def)
  qed
qed

lemma one_year_facts:
  "resolve_reports (datacenter_up one_year_history 15 10) one_year_history =
     (Some (annual_report 2023 2 25), None, Fin 10, Fin 10)"
  "ValueList one_year_history ValueListTypeEPS 3 FinaReportTypeYear = [Fin 2]"
  by (simp_all add: resolve_reports_def Let_def datacenter_up_simps GetReport_def ValueList_def
        one_year_history_def annual_report_simps)

text \<open>
  Claim C3 says that \<open>NewStock\<close> returns a profile and no error for every combination
  of provider outcomes.  Here every provider answers, and the fundamentals history holds
  the annual report of last year only: there are fewer than three annual EPS values, the
  report of the year before is \<open>nil\<close>, and reading its \<open>Epsjb\<close> for the prior-year price
  panics.
\<close>

theorem NewStock_panics_on_single_annual_report:
  "NewStock (datacenter_up one_year_history 15 10) example_info = Inl NilPointerDereference"
proof -
  let ?dc = "datacenter_up one_year_history 15 10"
  have ne: "one_year_history \<noteq> []" by (simp add: one_year_history_def)
  have b: "baseEPS_of [Fin 2] (Some (annual_report 2023 2 25)) = Inr (Fin 2)"
    by (simp add: baseEPS_of_def deref_Epsjb_def annual_report_simps)
  have lb: "lastYearBaseEPS_of [Fin 2] None = Inl NilPointerDereference"
    by (simp add: lastYearBaseEPS_of_def deref_Epsjb_def)
  show ?thesis
    by (simp add: NewStock_valuation [of ?dc example_info one_year_history, OF _ ne _ _
          one_year_facts(1)] datacenter_up_simps one_year_facts(2)
          rightPrice_steps_panic(2) [OF b lb])
qed

end
